theory Spec2Isabelle
  imports Complex_Main
begin

section \<open>Arrays and the numpy operations the two classifiers use\<close>

text \<open>
  The two source files, \<^verbatim>\<open>hw2-code/nndl/softmax.py\<close> and
  \<^verbatim>\<open>hw3-code/nndl/neural_net.py\<close>, compute on numpy arrays of float64.
  The numbers are modelled as reals: rounding, overflow to \<open>inf\<close> and \<open>nan\<close> are
  not represented. Where numpy yields \<open>nan\<close> or \<open>inf\<close> with a warning and goes on
  (the mean of an empty array, a division by zero), the model goes on as well, with
  HOL's value of the expression; the theorems below that reach such a place are about
  control flow and shapes only. One quotient is rounded as float64 rounds it:
  \<^verbatim>\<open>num_train / batch_size\<close> in \<^verbatim>\<open>TwoLayerNet.train\<close>, because its rounding
  decides which iterations pass the test \<^verbatim>\<open>it % iterations_per_epoch == 0\<close>.

  A one-dimensional array is a list. A two-dimensional array carries its number of
  columns beside its rows, so that the shapes \<open>(0, 3)\<close> and \<open>(0, 0)\<close> differ, as they
  do in numpy. Every raise of the source is a value \<open>Inl e\<close>.
\<close>

datatype py_error = ValueError | IndexError | NameError | ZeroDivisionError | MemoryError

datatype mat = Mat (ncols: nat) (rowsof: "real list list")

definition nrows :: "mat \<Rightarrow> nat" where
  "nrows M = length (rowsof M)"

definition shape :: "mat \<Rightarrow> nat \<times> nat" where
  "shape M = (nrows M, ncols M)"

text \<open>numpy arrays are rectangular: every row has \<open>ncols\<close> entries.\<close>

definition wf_mat :: "mat \<Rightarrow> bool" where
  "wf_mat M = list_all (\<lambda>r. length r = ncols M) (rowsof M)"

definition has_shape :: "mat \<Rightarrow> nat \<Rightarrow> nat \<Rightarrow> bool" where
  "has_shape M n d = (wf_mat M \<and> nrows M = n \<and> ncols M = d)"

text \<open>Sequencing of computations that may raise.\<close>

definition ebind :: "'e + 'a \<Rightarrow> ('a \<Rightarrow> 'e + 'b) \<Rightarrow> 'e + 'b" where
  "ebind m f = (case m of Inl e \<Rightarrow> Inl e | Inr v \<Rightarrow> f v)"

definition map_m :: "(real \<Rightarrow> real) \<Rightarrow> mat \<Rightarrow> mat" where
  "map_m f M = Mat (ncols M) (map (map f) (rowsof M))"

text \<open>\<^verbatim>\<open>M.T\<close>\<close>

definition transpose_m :: "mat \<Rightarrow> mat" where
  "transpose_m M = Mat (nrows M) (map (\<lambda>j. map (\<lambda>r. r ! j) (rowsof M)) [0..<ncols M])"

definition dotp :: "real list \<Rightarrow> real list \<Rightarrow> real" where
  "dotp a b = sum_list (map2 (*) a b)"

text \<open>\<^verbatim>\<open>np.dot(A, B)\<close> of two matrices: the inner dimensions must agree.\<close>

definition dot_mm :: "mat \<Rightarrow> mat \<Rightarrow> py_error + mat" where
  "dot_mm A B =
     (if ncols A \<noteq> nrows B then Inl ValueError
      else Inr (Mat (ncols B)
             (map (\<lambda>a. map (\<lambda>b. dotp a b) (rowsof (transpose_m B))) (rowsof A))))"

text \<open>\<^verbatim>\<open>np.dot(A, v)\<close> of a matrix and a vector.\<close>

definition dot_mv :: "mat \<Rightarrow> real list \<Rightarrow> py_error + real list" where
  "dot_mv A v =
     (if ncols A \<noteq> length v then Inl ValueError
      else Inr (map (\<lambda>a. dotp a v) (rowsof A)))"

text \<open>
  Broadcasting. Two axis lengths are compatible when they are equal or one of them is 1;
  an axis of length 1 is stretched to the other length.
\<close>

definition bc_len :: "nat \<Rightarrow> nat \<Rightarrow> nat option" where
  "bc_len a b =
     (if a = b then Some a else if a = 1 then Some b else if b = 1 then Some a else None)"

definition stretch :: "nat \<Rightarrow> 'a list \<Rightarrow> 'a list" where
  "stretch n xs = (if length xs = n then xs else replicate n (hd xs))"

definition bc1 :: "('a \<Rightarrow> 'b \<Rightarrow> 'c) \<Rightarrow> 'a list \<Rightarrow> 'b list \<Rightarrow> py_error + 'c list" where
  "bc1 f xs ys =
     (case bc_len (length xs) (length ys) of
        None \<Rightarrow> Inl ValueError
      | Some n \<Rightarrow> Inr (map2 f (stretch n xs) (stretch n ys)))"

definition bc2 :: "(real \<Rightarrow> real \<Rightarrow> real) \<Rightarrow> mat \<Rightarrow> mat \<Rightarrow> py_error + mat" where
  "bc2 f A B =
     (case bc_len (nrows A) (nrows B) of
        None \<Rightarrow> Inl ValueError
      | Some n \<Rightarrow>
         (case bc_len (ncols A) (ncols B) of
            None \<Rightarrow> Inl ValueError
          | Some c \<Rightarrow>
              Inr (Mat c (map2 (\<lambda>a b. map2 f (stretch c a) (stretch c b))
                           (stretch n (rowsof A)) (stretch n (rowsof B))))))"

text \<open>A vector taking part in an operation with a matrix is a matrix of one row.\<close>

definition row_mat :: "real list \<Rightarrow> mat" where
  "row_mat v = Mat (length v) [v]"

text \<open>\<^verbatim>\<open>np.sum(M, axis=1)\<close> and \<^verbatim>\<open>np.sum(M, axis=0)\<close>\<close>

definition sum_axis1 :: "mat \<Rightarrow> real list" where
  "sum_axis1 M = map sum_list (rowsof M)"

definition sum_axis0 :: "mat \<Rightarrow> real list" where
  "sum_axis0 M = sum_axis1 (transpose_m M)"

text \<open>\<^verbatim>\<open>np.tile(v, (c, 1))\<close>: \<open>c\<close> copies of the vector as rows.\<close>

definition tile :: "real list \<Rightarrow> nat \<Rightarrow> mat" where
  "tile v c = Mat (length v) (replicate c v)"

text \<open>
  \<^verbatim>\<open>np.mean\<close>. On an empty array numpy warns and returns \<open>nan\<close>; it does not raise.
\<close>

definition mean :: "real list \<Rightarrow> real" where
  "mean xs = sum_list xs / real (length xs)"

definition mean_m :: "mat \<Rightarrow> real" where
  "mean_m M = sum_list (concat (rowsof M)) / real (nrows M * ncols M)"

text \<open>
  \<^verbatim>\<open>np.argmax(M, axis=1)\<close> and \<^verbatim>\<open>np.amax(M, axis=1)\<close>: the first index of the
  largest entry of each row, and that entry. Both raise on an axis of length 0.
\<close>

fun argmax_aux :: "real \<Rightarrow> nat \<Rightarrow> nat \<Rightarrow> real list \<Rightarrow> nat" where
  "argmax_aux best bi i [] = bi"
| "argmax_aux best bi i (x # xs) =
     (if best < x then argmax_aux x i (Suc i) xs else argmax_aux best bi (Suc i) xs)"

definition argmax_row :: "real list \<Rightarrow> nat" where
  "argmax_row r = argmax_aux (hd r) 0 1 (tl r)"

definition argmax_axis1 :: "mat \<Rightarrow> py_error + int list" where
  "argmax_axis1 M =
     (if ncols M = 0 then Inl ValueError
      else Inr (map (\<lambda>r. int (argmax_row r)) (rowsof M)))"

definition amax_axis1 :: "mat \<Rightarrow> py_error + real list" where
  "amax_axis1 M =
     (if ncols M = 0 then Inl ValueError
      else Inr (map (\<lambda>r. fold max (tl r) (hd r)) (rowsof M)))"

text \<open>
  An integer index into an axis of length \<open>n\<close>: negative indices count from the end,
  anything outside \<open>[-n, n)\<close> raises IndexError.
\<close>

definition norm_index :: "nat \<Rightarrow> int \<Rightarrow> py_error + nat" where
  "norm_index n i =
     (let j = (if i < 0 then int n + i else i)
      in if 0 \<le> j \<and> j < int n then Inr (nat j) else Inl IndexError)"

fun emap :: "('a \<Rightarrow> 'e + 'b) \<Rightarrow> 'a list \<Rightarrow> 'e + 'b list" where
  "emap f [] = Inr []"
| "emap f (x # xs) = ebind (f x) (\<lambda>v. ebind (emap f xs) (\<lambda>vs. Inr (v # vs)))"

text \<open>\<^verbatim>\<open>M[:, y]\<close>: for every row, the entries at the columns listed in \<open>y\<close>.\<close>

definition take_cols :: "mat \<Rightarrow> int list \<Rightarrow> py_error + mat" where
  "take_cols M y =
     ebind (emap (norm_index (ncols M)) y)
       (\<lambda>js. Inr (Mat (length js) (map (\<lambda>r. map (\<lambda>j. r ! j) js) (rowsof M))))"

section \<open>The softmax classifier (hw2)\<close>

text \<open>
  The only attribute of a \<^verbatim>\<open>Softmax\<close> object is the weight matrix \<^verbatim>\<open>self.W\<close>,
  of shape \<open>(C, D)\<close>; every method below takes it as its first argument.
\<close>

text \<open>
  \<^verbatim>\<open>Softmax.loss\<close>:
  \<^verbatim>\<open>
    pred = np.matmul(X, self.W.T)
    A_y = pred[:, y]
    log_sum_pred_exp = np.log(np.sum(np.exp(pred), axis= 1))
    loss = np.mean(-A_y + log_sum_pred_exp)
  \<close>
\<close>

definition Softmax_loss :: "mat \<Rightarrow> mat \<Rightarrow> int list \<Rightarrow> py_error + real" where
  "Softmax_loss W X y =
     ebind (dot_mm X (transpose_m W)) (\<lambda>pred.
     ebind (take_cols pred y) (\<lambda>A_y.
     let log_sum_pred_exp = map ln (sum_axis1 (map_m exp pred)) in
     ebind (bc2 (+) (map_m uminus A_y) (row_mat log_sum_pred_exp)) (\<lambda>t.
     Inr (mean_m t))))"

text \<open>
  \<^verbatim>\<open>Softmax.predict\<close>:
  \<^verbatim>\<open>
    y_pred = np.zeros(X.shape[1])
    def softmax_function(var):
        result = np.exp(var) / np.sum(np.exp(a))
        return result
    y_pred = np.argmax(softmax_function(np.dot(self.W, X)), axis= 1)
  \<close>
  The argument \<^verbatim>\<open>np.dot(self.W, X)\<close> is evaluated first. In the body of
  \<^verbatim>\<open>softmax_function\<close>, \<^verbatim>\<open>np.exp(var)\<close> is computed and then the name \<^verbatim>\<open>a\<close>
  is read. The names bound where it is read are listed by \<open>softmax_function_scope\<close>:
  the locals \<^verbatim>\<open>var\<close> and \<^verbatim>\<open>result\<close>, the enclosing \<^verbatim>\<open>self\<close>, \<^verbatim>\<open>X\<close>,
  \<^verbatim>\<open>y_pred\<close> and \<^verbatim>\<open>softmax_function\<close>, and the module's \<^verbatim>\<open>A\<close>, \<^verbatim>\<open>I\<close>
  (from \<^verbatim>\<open>re\<close>), \<^verbatim>\<open>np\<close> and \<^verbatim>\<open>Softmax\<close>.
\<close>

definition softmax_function_scope :: "string list" where
  "softmax_function_scope =
     [''var'', ''result'', ''self'', ''X'', ''y_pred'', ''softmax_function'',
      ''A'', ''I'', ''np'', ''Softmax'']"

definition read_name :: "string \<Rightarrow> 'a \<Rightarrow> py_error + 'a" where
  "read_name name v = (if name \<in> set softmax_function_scope then Inr v else Inl NameError)"

definition softmax_function :: "mat \<Rightarrow> py_error + mat" where
  "softmax_function var =
     (let num = map_m exp var in
      ebind (read_name ''a'' var) (\<lambda>a.
      let s = sum_list (concat (rowsof (map_m exp a))) in
      Inr (map_m (\<lambda>x. x / s) num)))"

definition Softmax_predict :: "mat \<Rightarrow> mat \<Rightarrow> py_error + int list" where
  "Softmax_predict W X =
     ebind (dot_mm W X) (\<lambda>var.
     ebind (softmax_function var) (\<lambda>p.
     argmax_axis1 p))"

text \<open>
  An array of either rank, for an argument whose rank the caller chooses
  (\<^verbatim>\<open>your_grad\<close>) and for comparing shapes.
\<close>

datatype ndarray = Arr1 "real list" | Arr2 mat

fun shape_nd :: "ndarray \<Rightarrow> nat list" where
  "shape_nd (Arr1 v) = [length v]"
| "shape_nd (Arr2 M) = [nrows M, ncols M]"

text \<open>
  The part \<^verbatim>\<open>loss_and_grad\<close> and \<^verbatim>\<open>fast_loss_and_grad\<close> have in common:
  \<^verbatim>\<open>
    numerator = np.exp(np.dot(X, self.W.T))
    denominator = np.sum(numerator, axis= 1)
    denominator = np.tile(denominator, (numerator.shape[1], 1)).T
    score = numerator / denominator
  \<close>
  and, at the end of both,
  \<^verbatim>\<open>
    y_hat = np.argmax(score, axis= 1)
    grad = np.dot(X.T, (y_hat - y)) / y.shape[0]
  \<close>
\<close>

definition softmax_scores :: "mat \<Rightarrow> mat \<Rightarrow> py_error + mat \<times> mat" where
  "softmax_scores W X =
     ebind (dot_mm X (transpose_m W)) (\<lambda>s.
     let numerator = map_m exp s;
         denominator = transpose_m (tile (sum_axis1 numerator) (ncols numerator)) in
     ebind (bc2 (/) numerator denominator) (\<lambda>score.
     Inr (denominator, score)))"

definition argmax_grad :: "mat \<Rightarrow> mat \<Rightarrow> int list \<Rightarrow> py_error + real list" where
  "argmax_grad score X y =
     ebind (argmax_axis1 score) (\<lambda>y_hat.
     ebind (bc1 (-) y_hat y) (\<lambda>d.
     ebind (dot_mv (transpose_m X) (map real_of_int d)) (\<lambda>g.
     Inr (map (\<lambda>v. v / real (length y)) g))))"

text \<open>
  \<^verbatim>\<open>Softmax.loss_and_grad\<close>, whose loss is
  \<^verbatim>\<open>
    loss_mle = np.log(denominator) - y
    loss = np.mean(loss_mle)
  \<close>
\<close>

definition Softmax_loss_and_grad ::
    "mat \<Rightarrow> mat \<Rightarrow> int list \<Rightarrow> py_error + real \<times> real list" where
  "Softmax_loss_and_grad W X y =
     ebind (softmax_scores W X) (\<lambda>(denominator, score).
     ebind (bc2 (-) (map_m ln denominator) (row_mat (map real_of_int y))) (\<lambda>loss_mle.
     let loss = mean_m loss_mle in
     ebind (argmax_grad score X y) (\<lambda>grad.
     Inr (loss, grad))))"

text \<open>
  \<^verbatim>\<open>Softmax.fast_loss_and_grad\<close>, whose loss is
  \<^verbatim>\<open>
    y_hat = np.amax(score, axis= 1)
    loss_mle = -1 * np.log(y_hat) * y
    loss = np.mean(loss_mle)
  \<close>
\<close>

definition Softmax_fast_loss_and_grad ::
    "mat \<Rightarrow> mat \<Rightarrow> int list \<Rightarrow> py_error + real \<times> real list" where
  "Softmax_fast_loss_and_grad W X y =
     ebind (softmax_scores W X) (\<lambda>(denominator, score).
     ebind (amax_axis1 score) (\<lambda>y_hat.
     ebind (bc1 (*) (map (\<lambda>p. - 1 * ln p) y_hat) (map real_of_int y)) (\<lambda>loss_mle.
     let loss = mean loss_mle in
     ebind (argmax_grad score X y) (\<lambda>grad.
     Inr (loss, grad)))))"

text \<open>
  \<^verbatim>\<open>Softmax.grad_check_sparse\<close>. \<^verbatim>\<open>np.random.randint(m)\<close> draws from \<open>[0, m)\<close> and
  raises for \<open>m = 0\<close>; the generator is a stream \<open>rnd\<close> of raw draws. The method mutates
  \<^verbatim>\<open>self.W\<close> in place, so the model returns the weights as they are when the method
  returns or raises, beside the outcome: the printed triples
  (numerical, analytic, relative error), or the error.
\<close>

definition randint :: "nat \<Rightarrow> nat \<Rightarrow> py_error + nat" where
  "randint m raw = (if m = 0 then Inl ValueError else Inr (raw mod m))"

definition get_entry :: "mat \<Rightarrow> nat \<Rightarrow> nat \<Rightarrow> real" where
  "get_entry M i j = rowsof M ! i ! j"

definition set_entry :: "mat \<Rightarrow> nat \<Rightarrow> nat \<Rightarrow> real \<Rightarrow> mat" where
  "set_entry M i j v = Mat (ncols M) ((rowsof M)[i := (rowsof M ! i)[j := v]])"

text \<open>\<^verbatim>\<open>your_grad[ix]\<close> with a pair \<open>ix\<close>: a vector has too few axes.\<close>

fun index2 :: "ndarray \<Rightarrow> nat \<Rightarrow> nat \<Rightarrow> py_error + real" where
  "index2 (Arr1 v) i j = Inl IndexError"
| "index2 (Arr2 M) i j =
     (if i < nrows M \<and> j < ncols M then Inr (get_entry M i j) else Inl IndexError)"

definition grad_check_body ::
    "mat \<Rightarrow> int list \<Rightarrow> ndarray \<Rightarrow> real \<Rightarrow> nat \<Rightarrow> nat \<Rightarrow> mat
       \<Rightarrow> mat \<times> (py_error + real \<times> real \<times> real)" where
  "grad_check_body X y your_grad h r0 r1 W =
     (case randint (nrows W) r0 of Inl e \<Rightarrow> (W, Inl e) | Inr i \<Rightarrow>
      case randint (ncols W) r1 of Inl e \<Rightarrow> (W, Inl e) | Inr j \<Rightarrow>
      let oldval = get_entry W i j;
          Wp = set_entry W i j (oldval + h) in
      case Softmax_loss Wp X y of Inl e \<Rightarrow> (Wp, Inl e) | Inr fxph \<Rightarrow>
      let Wm = set_entry Wp i j (oldval - h) in
      case Softmax_loss Wm X y of Inl e \<Rightarrow> (Wm, Inl e) | Inr fxmh \<Rightarrow>
      let W0 = set_entry Wm i j oldval;
          grad_numerical = (fxph - fxmh) / (2 * h) in
      case index2 your_grad i j of Inl e \<Rightarrow> (W0, Inl e) | Inr grad_analytic \<Rightarrow>
      let rel_error = \<bar>grad_numerical - grad_analytic\<bar>
                       / (\<bar>grad_numerical\<bar> + \<bar>grad_analytic\<bar>) in
      (W0, Inr (grad_numerical, grad_analytic, rel_error)))"

fun grad_check_loop ::
    "mat \<Rightarrow> int list \<Rightarrow> ndarray \<Rightarrow> real \<Rightarrow> (nat \<Rightarrow> nat) \<Rightarrow> nat list
       \<Rightarrow> mat \<times> (real \<times> real \<times> real) list
       \<Rightarrow> mat \<times> (py_error + (real \<times> real \<times> real) list)" where
  "grad_check_loop X y your_grad h rnd [] (W, out) = (W, Inr out)"
| "grad_check_loop X y your_grad h rnd (i # is) (W, out) =
     (case grad_check_body X y your_grad h (rnd (2 * i)) (rnd (2 * i + 1)) W of
        (W', Inl e) \<Rightarrow> (W', Inl e)
      | (W', Inr line) \<Rightarrow> grad_check_loop X y your_grad h rnd is (W', out @ [line]))"

definition Softmax_grad_check_sparse ::
    "mat \<Rightarrow> mat \<Rightarrow> int list \<Rightarrow> ndarray \<Rightarrow> nat \<Rightarrow> real \<Rightarrow> (nat \<Rightarrow> nat)
       \<Rightarrow> mat \<times> (py_error + (real \<times> real \<times> real) list)" where
  "Softmax_grad_check_sparse W X y your_grad num_checks h rnd =
     grad_check_loop X y your_grad h rnd [0..<num_checks] (W, [])"



definition np_zeros :: "nat \<Rightarrow> int list \<Rightarrow> py_error + unit" where
  "np_zeros capacity dims =
     (if list_ex (\<lambda>d. d < 0) dims then Inl ValueError
      else if 2 ^ 60 \<le> prod_list dims then Inl ValueError
      else if int capacity < prod_list dims then Inl MemoryError
      else Inr ())"

definition slice :: "nat \<Rightarrow> nat \<Rightarrow> 'a list \<Rightarrow> 'a list" where
  "slice start stop xs = take (stop - start) (drop start xs)"

definition Softmax_train_step ::
    "nat \<Rightarrow> mat \<Rightarrow> int list \<Rightarrow> real \<Rightarrow> int \<Rightarrow> nat \<Rightarrow> mat \<Rightarrow> py_error + real \<times> mat" where
  "Softmax_train_step capacity X y learning_rate batch_size it W =
     ebind (np_zeros capacity [batch_size]) (\<lambda>y_batch.
     ebind (np_zeros capacity [int (ncols X), batch_size]) (\<lambda>X_batch.
     let start_index = it * nat batch_size;
         end_index = start_index + nat batch_size;
         X_batch = Mat (ncols X) (slice start_index end_index (rowsof X));
         y_batch = slice start_index end_index y in
     ebind (Softmax_fast_loss_and_grad W X_batch y_batch) (\<lambda>(loss, grad).
     ebind (bc2 (-) W (row_mat (map (\<lambda>g. learning_rate * g) grad))) (\<lambda>W'.
     Inr (loss, W')))))"



section \<open>The two-layer network (hw3)\<close>

text \<open>
  \<^verbatim>\<open>self.params\<close> is a dictionary with the four keys \<^verbatim>\<open>W1\<close>, \<^verbatim>\<open>b1\<close>,
  \<^verbatim>\<open>W2\<close>, \<^verbatim>\<open>b2\<close>, and so is \<^verbatim>\<open>grads\<close>.
\<close>

record params =
  W1 :: mat
  b1 :: "real list"
  W2 :: mat
  b2 :: "real list"

text \<open>\<^verbatim>\<open>loss\<close> returns the scores when \<open>y\<close> is \<^verbatim>\<open>None\<close>, else the pair of loss and gradients.\<close>

datatype loss_result = Scores mat | LossGrads real params

definition zeros :: "nat \<Rightarrow> nat \<Rightarrow> mat" where
  "zeros n c = Mat c (replicate n (replicate c 0))"

text \<open>\<^verbatim>\<open>v.reshape(n, 1)\<close> of a vector of length \<open>n\<close>.\<close>

definition col_mat :: "real list \<Rightarrow> mat" where
  "col_mat v = Mat 1 (map (\<lambda>x. [x]) v)"

definition sum_m :: "mat \<Rightarrow> real" where
  "sum_m M = sum_list (concat (rowsof M))"

text \<open>
  \<^verbatim>\<open>M[np.arange(n), y]\<close>: the two index arrays are broadcast against each other and
  give the positions (row, column) read; a shape mismatch or a column out of range raises
  IndexError.
\<close>

definition fancy_pairs :: "mat \<Rightarrow> int list \<Rightarrow> py_error + (nat \<times> nat) list" where
  "fancy_pairs M y =
     (case bc_len (nrows M) (length y) of
        None \<Rightarrow> Inl IndexError
      | Some m \<Rightarrow>
          ebind (emap (norm_index (ncols M)) (stretch m y))
            (\<lambda>js. Inr (zip (stretch m [0..<nrows M]) js)))"

text \<open>
  \<^verbatim>\<open>M[rows, cols] -= c\<close>: every listed position gets its old value minus \<open>c\<close>
  (once, also when a position is listed twice).
\<close>

definition isub_at :: "mat \<Rightarrow> (nat \<times> nat) list \<Rightarrow> real \<Rightarrow> mat" where
  "isub_at M ps c = fold (\<lambda>(i, j) A. set_entry A i j (get_entry M i j - c)) ps M"

text \<open>\<^verbatim>\<open>G[H <= 0] = 0\<close>: the mask must have the shape of \<open>G\<close>.\<close>

definition mask_assign :: "mat \<Rightarrow> mat \<Rightarrow> py_error + mat" where
  "mask_assign G H =
     (if shape G \<noteq> shape H then Inl IndexError
      else Inr (Mat (ncols G)
             (map2 (\<lambda>g h. map2 (\<lambda>gv hv. if hv \<le> 0 then 0 else gv) g h)
                (rowsof G) (rowsof H))))"

text \<open>
  The forward pass of \<^verbatim>\<open>TwoLayerNet.loss\<close>:
  \<^verbatim>\<open>
    H1 = np.dot(X, W1.T) + b1
    H1 = np.maximum(np.zeros(H1.shape), H1)
    scores = np.dot(H1, W2.T) + b2
  \<close>
\<close>

definition loss_forward :: "params \<Rightarrow> mat \<Rightarrow> py_error + mat \<times> mat" where
  "loss_forward p X =
     ebind (dot_mm X (transpose_m (W1 p))) (\<lambda>a.
     ebind (bc2 (+) a (row_mat (b1 p))) (\<lambda>H1.
     ebind (bc2 max (zeros (nrows H1) (ncols H1)) H1) (\<lambda>H1.
     ebind (dot_mm H1 (transpose_m (W2 p))) (\<lambda>s.
     ebind (bc2 (+) s (row_mat (b2 p))) (\<lambda>scores.
     Inr (H1, scores))))))"

text \<open>
  The rest of \<^verbatim>\<open>TwoLayerNet.loss\<close> when \<open>y\<close> is given: the loss
  \<^verbatim>\<open>
    e_A = np.exp(scores)
    summed_e_A = np.sum(e_A, axis=1)
    logged_summed_e_A = np.log(summed_e_A)
    A_y = scores[np.arange(num_examples), y]
    regularization = 0.5 * reg * (np.sum(np.square(W1)) + np.sum(np.square(W2)))
    loss = np.mean(logged_summed_e_A - A_y) + regularization
  \<close>
  and the backward pass
  \<^verbatim>\<open>
    softmax_gradient = e_A / summed_e_A.reshape(num_examples, 1)
    softmax_gradient[np.arange(num_examples), y] -= 1
    softmax_gradient /= num_examples
    gradient_reg_W2 = reg * W2
    gradient_reg_W1 = reg * W1
    grads['b2'] = np.sum(softmax_gradient.T, axis=1)
    gradient_1 = np.dot(H1.T, softmax_gradient).T
    grads['W2'] = gradient_reg_W2 + gradient_1
    gradient_2 = np.dot(softmax_gradient, W2)
    gradient_2[H1 <= 0] = 0
    grads['b1'] = np.sum(gradient_2, axis=0)
    grads['W1'] = gradient_reg_W1 + np.dot(X.T, gradient_2).T
  \<close>
\<close>

definition loss_backward ::
    "params \<Rightarrow> mat \<Rightarrow> int list \<Rightarrow> real \<Rightarrow> mat \<Rightarrow> mat \<Rightarrow> py_error + real \<times> params" where
  "loss_backward p X y reg H1 scores =
     (let num_examples = nrows scores;
          e_A = map_m exp scores;
          summed_e_A = sum_axis1 e_A;
          logged_summed_e_A = map ln summed_e_A in
      ebind (fancy_pairs scores y) (\<lambda>ps.
      let A_y = map (\<lambda>(i, j). get_entry scores i j) ps;
          regularization =
            0.5 * reg * (sum_m (map_m (\<lambda>w. w * w) (W1 p)) + sum_m (map_m (\<lambda>w. w * w) (W2 p))) in
      ebind (bc1 (-) logged_summed_e_A A_y) (\<lambda>d.
      let loss = mean d + regularization in
      ebind (bc2 (/) e_A (col_mat summed_e_A)) (\<lambda>sg.
      let sg1 = isub_at sg ps 1;
          softmax_gradient = map_m (\<lambda>v. v / real num_examples) sg1;
          gradient_reg_W2 = map_m (\<lambda>w. reg * w) (W2 p);
          gradient_reg_W1 = map_m (\<lambda>w. reg * w) (W1 p);
          grads_b2 = sum_axis1 (transpose_m softmax_gradient) in
      ebind (dot_mm (transpose_m H1) softmax_gradient) (\<lambda>g1.
      let gradient_1 = transpose_m g1 in
      ebind (bc2 (+) gradient_reg_W2 gradient_1) (\<lambda>grads_W2.
      ebind (dot_mm softmax_gradient (W2 p)) (\<lambda>g2.
      ebind (mask_assign g2 H1) (\<lambda>gradient_2.
      let grads_b1 = sum_axis0 gradient_2 in
      ebind (dot_mm (transpose_m X) gradient_2) (\<lambda>t.
      ebind (bc2 (+) gradient_reg_W1 (transpose_m t)) (\<lambda>grads_W1.
      Inr (loss, \<lparr>W1 = grads_W1, b1 = grads_b1, W2 = grads_W2, b2 = grads_b2\<rparr>)))))))))))"

definition TwoLayerNet_loss ::
    "params \<Rightarrow> mat \<Rightarrow> int list option \<Rightarrow> real \<Rightarrow> py_error + loss_result" where
  "TwoLayerNet_loss p X y reg =
     ebind (loss_forward p X) (\<lambda>(H1, scores).
     case y of
       None \<Rightarrow> Inr (Scores scores)
     | Some labels \<Rightarrow>
         ebind (loss_backward p X labels reg H1 scores) (\<lambda>(loss, grads).
         Inr (LossGrads loss grads)))"

text \<open>
  \<^verbatim>\<open>TwoLayerNet.predict\<close>:
  \<^verbatim>\<open>
    H1 = np.dot(X, self.params['W1'].T) + self.params['b1']
    H1 = np.maximum(np.zeros(H1.shape), H1)
    scores = np.dot(H1, self.params['W2'].T) + self.params['b2']
    y_pred = np.argmax(scores, axis=1)
  \<close>
\<close>

definition TwoLayerNet_predict :: "params \<Rightarrow> mat \<Rightarrow> py_error + int list" where
  "TwoLayerNet_predict p X =
     ebind (dot_mm X (transpose_m (W1 p))) (\<lambda>a.
     ebind (bc2 (+) a (row_mat (b1 p))) (\<lambda>H1.
     ebind (bc2 max (zeros (nrows H1) (ncols H1)) H1) (\<lambda>H1.
     ebind (dot_mm H1 (transpose_m (W2 p))) (\<lambda>s.
     ebind (bc2 (+) s (row_mat (b2 p))) (\<lambda>scores.
     argmax_axis1 scores)))))"

text \<open>
  \<^verbatim>\<open>TwoLayerNet.train\<close>. \<open>num_iters\<close> and \<open>batch_size\<close> are natural numbers.
  \<^verbatim>\<open>num_train / batch_size\<close> is Python 3's true division of two integers: it raises
  ZeroDivisionError for \<open>batch_size = 0\<close> and otherwise gives the float64 nearest to
  the quotient (ties to the even mantissa), which \<open>f64_quotient\<close> computes: the exponent
  \<open>e\<close> with \<open>2\<^sup>e \<le> q < 2\<^sup>e\<^sup>+\<^sup>1\<close>, the unit \<open>2\<^sup>e\<^sup>-\<^sup>5\<^sup>2\<close> of the 53-bit mantissa, and
  the quotient rounded to a multiple of that unit. (Array dimensions are below \<open>2\<^sup>6\<^sup>3\<close>,
  so the quotient is far inside the range of normal float64 numbers.)
  \<^verbatim>\<open>it % iterations_per_epoch\<close> is the remainder of flooring division by that
  float; the remainder of two float64 numbers is again a float64 and is computed
  without rounding, so it is the real remainder \<open>np_mod\<close>. \<^verbatim>\<open>np.random.choice(n, k, replace=True)\<close> draws \<open>k\<close> indices below \<open>n\<close>
  (from the stream \<open>rnd\<close> of raw draws, indexed by iteration and position) and raises
  for \<open>n = 0\<close> unless \<open>k = 0\<close>. The in-place \<^verbatim>\<open>-=\<close> raises when the right-hand side
  does not broadcast to the shape of the parameter. \<^verbatim>\<open>==\<close> between two label vectors
  is elementwise, with broadcasting, and raises on incompatible lengths as numpy 1.25 and
  later do. \<^verbatim>\<open>loss, grads = self.loss(X_batch, y=y_batch, reg=reg)\<close> unpacks the pair
  that \<^verbatim>\<open>loss\<close> returns when labels are given; the branch for bare scores is never
  taken there.
\<close>

fun ilog2 :: "nat \<Rightarrow> nat" where
  "ilog2 n = (if n < 2 then 0 else Suc (ilog2 (n div 2)))"

declare ilog2.simps [simp del]

definition pow2 :: "int \<Rightarrow> real" where
  "pow2 e = (if 0 \<le> e then 2 ^ nat e else 1 / 2 ^ nat (- e))"

definition round_half_even :: "real \<Rightarrow> int" where
  "round_half_even x =
     (let f = \<lfloor>x\<rfloor>; d = x - of_int f
      in if d < 1 / 2 then f else if 1 / 2 < d then f + 1
         else if even f then f else f + 1)"

definition f64_quotient :: "nat \<Rightarrow> nat \<Rightarrow> real" where
  "f64_quotient a b =
     (if a = 0 then 0
      else let q = real a / real b;
               e0 = int (ilog2 a) - int (ilog2 b);
               e = (if pow2 e0 \<le> q then e0 else e0 - 1);
               ulp = pow2 (e - 52)
           in of_int (round_half_even (q / ulp)) * ulp)"

definition true_div :: "nat \<Rightarrow> nat \<Rightarrow> py_error + real" where
  "true_div a b = (if b = 0 then Inl ZeroDivisionError else Inr (f64_quotient a b))"

definition np_mod :: "real \<Rightarrow> real \<Rightarrow> real" where
  "np_mod x m = x - m * of_int \<lfloor>x / m\<rfloor>"

definition choice :: "nat \<Rightarrow> nat \<Rightarrow> (nat \<Rightarrow> nat) \<Rightarrow> py_error + nat list" where
  "choice n k raw =
     (if n = 0 \<and> 0 < k then Inl ValueError
      else Inr (map (\<lambda>j. raw j mod n) [0..<k]))"

definition index1 :: "'a list \<Rightarrow> nat \<Rightarrow> py_error + 'a" where
  "index1 xs i = (if i < length xs then Inr (xs ! i) else Inl IndexError)"

definition isub_m :: "mat \<Rightarrow> mat \<Rightarrow> py_error + mat" where
  "isub_m P G =
     ebind (bc2 (-) P G) (\<lambda>R. if shape R = shape P then Inr R else Inl ValueError)"

definition isub_v :: "real list \<Rightarrow> real list \<Rightarrow> py_error + real list" where
  "isub_v p g =
     ebind (bc1 (-) p g) (\<lambda>r. if length r = length p then Inr r else Inl ValueError)"

definition accuracy :: "int list \<Rightarrow> int list \<Rightarrow> py_error + real" where
  "accuracy pred y =
     ebind (bc1 (\<lambda>a b. if a = b then 1 else 0) pred y) (\<lambda>hits. Inr (mean hits))"

record train_state =
  net :: params
  learning_rate :: real
  loss_history :: "real list"
  train_acc_history :: "real list"
  val_acc_history :: "real list"

definition sgd_update :: "params \<Rightarrow> real \<Rightarrow> params \<Rightarrow> py_error + params" where
  "sgd_update p lr grads =
     ebind (isub_m (W1 p) (map_m (\<lambda>g. lr * g) (W1 grads))) (\<lambda>w1.
     ebind (isub_v (b1 p) (map (\<lambda>g. lr * g) (b1 grads))) (\<lambda>c1.
     ebind (isub_m (W2 p) (map_m (\<lambda>g. lr * g) (W2 grads))) (\<lambda>w2.
     ebind (isub_v (b2 p) (map (\<lambda>g. lr * g) (b2 grads))) (\<lambda>c2.
     Inr \<lparr>W1 = w1, b1 = c1, W2 = w2, b2 = c2\<rparr>))))"

definition TwoLayerNet_train_step ::
    "mat \<Rightarrow> int list \<Rightarrow> mat \<Rightarrow> int list \<Rightarrow> real \<Rightarrow> real \<Rightarrow> nat \<Rightarrow> real
       \<Rightarrow> (nat \<Rightarrow> nat \<Rightarrow> nat) \<Rightarrow> nat \<Rightarrow> train_state \<Rightarrow> py_error + train_state" where
  "TwoLayerNet_train_step X y X_val y_val learning_rate_decay reg batch_size
       iterations_per_epoch rnd it st =
     ebind (choice (nrows X) batch_size (rnd it)) (\<lambda>idxs.
     let X_batch = Mat (ncols X) (map (\<lambda>i. rowsof X ! i) idxs) in
     ebind (emap (index1 y) idxs) (\<lambda>y_batch.
     ebind (TwoLayerNet_loss (net st) X_batch (Some y_batch) reg) (\<lambda>res.
     case res of
       Scores s \<Rightarrow> Inl ValueError
     | LossGrads loss grads \<Rightarrow>
         ebind (sgd_update (net st) (learning_rate st) grads) (\<lambda>p'.
         let st1 = st\<lparr>net := p', loss_history := loss_history st @ [loss]\<rparr> in
         if np_mod (real it) iterations_per_epoch = 0 then
           ebind (TwoLayerNet_predict p' X_batch) (\<lambda>pb.
           ebind (accuracy pb y_batch) (\<lambda>train_acc.
           ebind (TwoLayerNet_predict p' X_val) (\<lambda>pv.
           ebind (accuracy pv y_val) (\<lambda>val_acc.
           Inr (st1\<lparr>train_acc_history := train_acc_history st1 @ [train_acc],
                     val_acc_history := val_acc_history st1 @ [val_acc],
                     learning_rate := learning_rate st1 * learning_rate_decay\<rparr>)))))
         else Inr st1))))"

fun TwoLayerNet_train_loop ::
    "mat \<Rightarrow> int list \<Rightarrow> mat \<Rightarrow> int list \<Rightarrow> real \<Rightarrow> real \<Rightarrow> nat \<Rightarrow> real
       \<Rightarrow> (nat \<Rightarrow> nat \<Rightarrow> nat) \<Rightarrow> nat list \<Rightarrow> train_state \<Rightarrow> py_error + train_state" where
  "TwoLayerNet_train_loop X y X_val y_val decay reg batch_size ipe rnd [] st = Inr st"
| "TwoLayerNet_train_loop X y X_val y_val decay reg batch_size ipe rnd (it # its) st =
     ebind (TwoLayerNet_train_step X y X_val y_val decay reg batch_size ipe rnd it st)
       (\<lambda>st'. TwoLayerNet_train_loop X y X_val y_val decay reg batch_size ipe rnd its st')"

definition TwoLayerNet_train ::
    "params \<Rightarrow> mat \<Rightarrow> int list \<Rightarrow> mat \<Rightarrow> int list \<Rightarrow> real \<Rightarrow> real \<Rightarrow> real \<Rightarrow> nat \<Rightarrow> nat
       \<Rightarrow> (nat \<Rightarrow> nat \<Rightarrow> nat) \<Rightarrow> py_error + train_state" where
  "TwoLayerNet_train p X y X_val y_val lr learning_rate_decay reg num_iters batch_size rnd =
     (let num_train = nrows X in
      ebind (true_div num_train batch_size) (\<lambda>q.
      let iterations_per_epoch = max q 1 in
      TwoLayerNet_train_loop X y X_val y_val learning_rate_decay reg batch_size
        iterations_per_epoch rnd [0..<num_iters]
        \<lparr>net = p, learning_rate = lr, loss_history = [],
         train_acc_history = [], val_acc_history = []\<rparr>))"

section \<open>What the specification says\<close>

text \<open>
  The loss of the softmax classifier in the words of the specification: for each row
  \<open>i\<close>, the score vector \<open>s\<^sub>i = W \<cdot> x\<^sub>i\<close>, the contribution
  \<open>- s\<^sub>i\<^sub>,\<^sub>y\<^sub>i + log (\<Sum>c. exp s\<^sub>i\<^sub>,\<^sub>c)\<close>, and the mean over the batch.
\<close>

definition Softmax_loss_spec :: "mat \<Rightarrow> mat \<Rightarrow> int list \<Rightarrow> real" where
  "Softmax_loss_spec W X y =
     mean (map2 (\<lambda>x c. let s = map (\<lambda>w. dotp w x) (rowsof W)
                        in - (s ! nat c) + ln (sum_list (map exp s)))
             (rowsof X) y)"

text \<open>
  The gradient in the words of the specification: \<open>X\<^sup>T \<cdot> (P - Y) / N\<close> transposed into
  the shape \<open>(C, D)\<close> of the weights, with \<open>P\<close> the softmax probabilities of the scores
  and \<open>Y\<close> the one-hot encoding of the labels.
\<close>

definition softmax_prob :: "real list \<Rightarrow> real list" where
  "softmax_prob s = map (\<lambda>v. exp v / sum_list (map exp s)) s"

definition Softmax_grad_spec :: "mat \<Rightarrow> mat \<Rightarrow> int list \<Rightarrow> mat" where
  "Softmax_grad_spec W X y =
     (let P = map (\<lambda>x. softmax_prob (map (\<lambda>w. dotp w x) (rowsof W))) (rowsof X);
          n = nrows X
      in Mat (ncols W)
           (map (\<lambda>c. map (\<lambda>d. (\<Sum>i\<leftarrow>[0..<n]. get_entry X i d
                                     * (P ! i ! c - (if y ! i = int c then 1 else 0))) / real n)
                      [0..<ncols W])
              [0..<nrows W]))"

text \<open>
  The scores of the two-layer network in the words of the specification, entry by entry:
  \<open>H = X \<cdot> W1\<^sup>T + b1\<close>, \<open>A = max(0, H)\<close>, \<open>S = A \<cdot> W2\<^sup>T + b2\<close>.
\<close>

definition scores_spec :: "params \<Rightarrow> mat \<Rightarrow> mat" where
  "scores_spec p X =
     (let N = nrows X; D = ncols X; H = nrows (W1 p); C = nrows (W2 p);
          Hpre = (\<lambda>i h. (\<Sum>d\<leftarrow>[0..<D]. get_entry X i d * get_entry (W1 p) h d) + b1 p ! h);
          A = (\<lambda>i h. max 0 (Hpre i h));
          S = (\<lambda>i c. (\<Sum>h\<leftarrow>[0..<H]. A i h * get_entry (W2 p) c h) + b2 p ! c)
      in Mat C (map (\<lambda>i. map (\<lambda>c. S i c) [0..<C]) [0..<N]))"

text \<open>
  The arg-max class of a row of scores: an index of the row whose entry is at least every
  entry of the row; among several largest entries it is the first, as \<^verbatim>\<open>np.argmax\<close>
  documents.
\<close>

definition is_row_argmax :: "real list \<Rightarrow> nat \<Rightarrow> bool" where
  "is_row_argmax r k =
     (k < length r \<and> list_all (\<lambda>j. r ! j \<le> r ! k) [0..<length r]
      \<and> list_all (\<lambda>j. r ! j < r ! k) [0..<k])"

text \<open>
  The number of accuracy records the specification gives for \<^verbatim>\<open>train\<close>:
  \<open>\<lceil>num_iters / iterations_per_epoch\<rceil>\<close> with
  \<open>iterations_per_epoch = max(num_train / batch_size, 1)\<close>.
\<close>

definition epochs_spec :: "nat \<Rightarrow> nat \<Rightarrow> nat \<Rightarrow> nat" where
  "epochs_spec num_iters num_train batch_size =
     nat \<lceil>real num_iters / max (real num_train / real batch_size) 1\<rceil>"

section \<open>Notions used in the statements and proofs\<close>

text \<open>The shapes of the four parameters: \<open>D\<close> inputs, \<open>H\<close> hidden units, \<open>C\<close> classes.\<close>

definition wf_params :: "params \<Rightarrow> nat \<Rightarrow> nat \<Rightarrow> nat \<Rightarrow> bool" where
  "wf_params p D H C =
     (has_shape (W1 p) H D \<and> length (b1 p) = H \<and> has_shape (W2 p) C H \<and> length (b2 p) = C)"

text \<open>The all-zero parameter set.\<close>

definition zero_params :: "nat \<Rightarrow> nat \<Rightarrow> nat \<Rightarrow> params" where
  "zero_params D H C =
     \<lparr>W1 = zeros H D, b1 = replicate H 0, W2 = zeros C H, b2 = replicate C 0\<rparr>"

text \<open>The loss component of what \<^verbatim>\<open>loss\<close> returns, when it returns one.\<close>

fun the_loss :: "loss_result \<Rightarrow> real option" where
  "the_loss (Scores s) = None"
| "the_loss (LossGrads l g) = Some l"

text \<open>
  What the two affine layers compute on well-shaped arguments, row by row, and the data
  term of the two-layer loss on well-shaped scores and labels.
\<close>

definition pre1 :: "params \<Rightarrow> mat \<Rightarrow> mat" where
  "pre1 p X = Mat (nrows (W1 p))
      (map (\<lambda>x. map2 (+) (map (dotp x) (rowsof (W1 p))) (b1 p)) (rowsof X))"

definition layer2 :: "params \<Rightarrow> mat \<Rightarrow> mat" where
  "layer2 p A = Mat (nrows (W2 p))
      (map (\<lambda>a. map2 (+) (map (dotp a) (rowsof (W2 p))) (b2 p)) (rowsof A))"

definition data_loss :: "mat \<Rightarrow> int list \<Rightarrow> real" where
  "data_loss scores y =
     mean (map2 (-) (map ln (sum_axis1 (map_m exp scores)))
             (map (\<lambda>(i, j). get_entry scores i j) (zip [0..<length y] (map nat y))))"

text \<open>Whether a computation returned, and the lengths of the three histories of a training run.\<close>

definition returns :: "'e + 'a \<Rightarrow> bool" where
  "returns r = (\<not> isl r)"

definition history_lengths :: "train_state \<Rightarrow> nat \<times> nat \<times> nat" where
  "history_lengths st =
     (length (loss_history st), length (train_acc_history st), length (val_acc_history st))"

text \<open>
  The number of iterations of a list at which \<^verbatim>\<open>it % iterations_per_epoch == 0\<close>
  holds, and the length of the loss history \<^verbatim>\<open>Softmax.train\<close> returns.
\<close>

definition epoch_checks :: "real \<Rightarrow> nat list \<Rightarrow> nat" where
  "epoch_checks ipe its = length (filter (\<lambda>it. np_mod (real it) ipe = 0) its)"




definition zero_draws :: "nat \<Rightarrow> nat \<Rightarrow> nat" where
  "zero_draws it j = 0"

definition counting_draws :: "nat \<Rightarrow> nat" where
  "counting_draws k = k"

section \<open>Shapes of the array operations\<close>

lemma ebind_Inr [simp]: "ebind (Inr v) f = f v"
  by (simp add: ebind_def)

lemma ebind_Inl [simp]: "ebind (Inl e) f = Inl e"
  by (simp add: ebind_def)

lemma has_shapeI: "wf_mat M \<Longrightarrow> nrows M = n \<Longrightarrow> ncols M = d \<Longrightarrow> has_shape M n d"
  by (simp add: has_shape_def)

lemma wf_mat_row: "wf_mat M \<Longrightarrow> r \<in> set (rowsof M) \<Longrightarrow> length r = ncols M"
  by (simp add: wf_mat_def list_all_iff)

lemma has_shape_row: "has_shape M n d \<Longrightarrow> r \<in> set (rowsof M) \<Longrightarrow> length r = d"
  by (auto simp: has_shape_def wf_mat_row)

lemma has_shape_rows: "has_shape M n d \<Longrightarrow> length (rowsof M) = n"
  by (simp add: has_shape_def nrows_def)

lemma has_shape_transpose: "has_shape (transpose_m M) (ncols M) (nrows M)"
  by (simp add: has_shape_def wf_mat_def transpose_m_def nrows_def list_all_iff)

lemma rows_transpose_transpose:
  assumes "wf_mat M"
  shows "transpose_m (transpose_m M) = M"
proof -
  obtain c rs where M: "M = Mat c rs" by (cases M)
  from assms M have len: "\<And>r. r \<in> set rs \<Longrightarrow> length r = c"
    by (simp add: wf_mat_def list_all_iff)
  have "map (\<lambda>i. map (\<lambda>r. r ! i) (map (\<lambda>j. map (\<lambda>r. r ! j) rs) [0..<c])) [0..<length rs] = rs"
  proof (rule nth_equalityI)
    show "length (map (\<lambda>i. map (\<lambda>r. r ! i) (map (\<lambda>j. map (\<lambda>r. r ! j) rs) [0..<c])) [0..<length rs]) = length rs"
      by simp
  next
    fix i assume "i < length (map (\<lambda>i. map (\<lambda>r. r ! i) (map (\<lambda>j. map (\<lambda>r. r ! j) rs) [0..<c])) [0..<length rs])"
    then have i: "i < length rs" by simp
    then have "length (rs ! i) = c" using len by simp
    then have "map (\<lambda>j. rs ! i ! j) [0..<c] = rs ! i"
      by (metis map_nth)
    with i show "map (\<lambda>i. map (\<lambda>r. r ! i) (map (\<lambda>j. map (\<lambda>r. r ! j) rs) [0..<c])) [0..<length rs] ! i = rs ! i"
      by (simp add: comp_def)
  qed
  then show ?thesis
    by (simp add: M transpose_m_def nrows_def)
qed

lemma dot_mm_transpose:
  assumes "wf_mat W" and "ncols X = ncols W"
  shows "dot_mm X (transpose_m W)
         = Inr (Mat (nrows W) (map (\<lambda>x. map (dotp x) (rowsof W)) (rowsof X)))"
proof -
  have "nrows (transpose_m W) = ncols W" "ncols (transpose_m W) = nrows W"
    by (simp_all add: transpose_m_def nrows_def)
  then show ?thesis
    using assms by (simp add: dot_mm_def rows_transpose_transpose)
qed

lemma dot_mm_shape:
  assumes "ncols A = nrows B"
  shows "\<exists>R. dot_mm A B = Inr R \<and> has_shape R (nrows A) (ncols B)"
  using assms
  by (simp add: dot_mm_def has_shape_def wf_mat_def nrows_def list_all_iff transpose_m_def)

lemma stretch_same [simp]: "length xs = n \<Longrightarrow> stretch n xs = xs"
  by (simp add: stretch_def)

lemma stretch_single: "stretch n [v] = replicate n v"
  by (cases "n = 1") (simp_all add: stretch_def)

lemma bc_len_same [simp]: "bc_len n n = Some n"
  by (simp add: bc_len_def)

lemma bc_len_one [simp]: "bc_len n (Suc 0) = Some n"
  by (simp add: bc_len_def)

lemma map2_replicate_right:
  "length xs = n \<Longrightarrow> map2 f xs (replicate n v) = map (\<lambda>x. f x v) xs"
  by (induction xs arbitrary: n) (auto simp: Suc_length_conv)

lemma bc2_row_mat:
  assumes "has_shape A n c" and "length v = c"
  shows "bc2 f A (row_mat v) = Inr (Mat c (map (\<lambda>a. map2 f a v) (rowsof A)))"
proof -
  have rows: "length (rowsof A) = n" using assms(1) by (rule has_shape_rows)
  have nc: "ncols A = c" using assms(1) by (simp add: has_shape_def)
  have "map2 (\<lambda>a b. map2 f (stretch c a) (stretch c b)) (rowsof A) (replicate n v)
        = map (\<lambda>a. map2 f (stretch c a) (stretch c v)) (rowsof A)"
    using rows by (rule map2_replicate_right)
  also have "\<dots> = map (\<lambda>a. map2 f a v) (rowsof A)"
    using assms by (auto simp: has_shape_row)
  finally show ?thesis
    using rows nc assms(2)
    by (simp add: bc2_def row_mat_def nrows_def stretch_single)
qed

lemma bc2_same_shape:
  assumes "has_shape A n c" and "has_shape B n c"
  shows "bc2 f A B = Inr (Mat c (map2 (map2 f) (rowsof A) (rowsof B)))"
proof -
  have "map2 (\<lambda>a b. map2 f (stretch c a) (stretch c b)) (rowsof A) (rowsof B)
        = map2 (map2 f) (rowsof A) (rowsof B)"
  proof (rule map_cong[OF refl])
    fix p assume "p \<in> set (zip (rowsof A) (rowsof B))"
    then have "fst p \<in> set (rowsof A)" "snd p \<in> set (rowsof B)"
      by (auto dest: set_zip_leftD set_zip_rightD simp: prod_eq_iff intro: set_zip_leftD[of "fst p" "snd p"] set_zip_rightD[of "fst p" "snd p"])
    then have "length (fst p) = c" "length (snd p) = c"
      using assms by (auto simp: has_shape_row)
    then show "(case p of (a, b) \<Rightarrow> map2 f (stretch c a) (stretch c b)) = (case p of (a, b) \<Rightarrow> map2 f a b)"
      by (cases p) simp
  qed
  then show ?thesis
    using assms by (simp add: bc2_def has_shape_def nrows_def)
qed

lemma has_shape_map2_rows:
  assumes "has_shape A n c" and "has_shape B n c"
  shows "has_shape (Mat c (map2 (map2 f) (rowsof A) (rowsof B))) n c"
  using assms
  by (auto simp: has_shape_def wf_mat_def nrows_def list_all_iff set_zip)

lemma has_shape_map_m [simp]: "has_shape (map_m f M) n c = has_shape M n c"
  by (auto simp: has_shape_def wf_mat_def map_m_def nrows_def list_all_iff)

lemma bc1_same: "length xs = length ys \<Longrightarrow> bc1 f xs ys = Inr (map2 f xs ys)"
  by (simp add: bc1_def)

section \<open>The forward pass of the two-layer network\<close>

lemma map2_replicate_left:
  "length xs = n \<Longrightarrow> map2 f (replicate n v) xs = map (f v) xs"
  by (induction xs arbitrary: n) (auto simp: Suc_length_conv)

lemma has_shape_zeros: "has_shape (zeros n c) n c"
  by (simp add: has_shape_def zeros_def wf_mat_def nrows_def list_all_iff)

lemma bc2_max_zeros:
  assumes "has_shape M n c"
  shows "bc2 max (zeros (nrows M) (ncols M)) M = Inr (map_m (max 0) M)"
proof -
  have n: "nrows M = n" and c: "ncols M = c" and len: "length (rowsof M) = n"
    using assms by (simp_all add: has_shape_def nrows_def)
  have "map2 (map2 max) (replicate n (replicate c 0)) (rowsof M)
        = map (map2 max (replicate c 0)) (rowsof M)"
    using len by (rule map2_replicate_left)
  also have "\<dots> = map (map (max 0)) (rowsof M)"
    using assms by (auto simp: has_shape_row map2_replicate_left)
  finally show ?thesis
    using bc2_same_shape[OF has_shape_zeros assms, of max] n c
    by (simp add: zeros_def map_m_def)
qed

lemma dotp_nth:
  assumes "length a = n" and "length b = n"
  shows "dotp a b = (\<Sum>k\<leftarrow>[0..<n]. a ! k * b ! k)"
proof -
  have "map2 (*) a b = map (\<lambda>k. a ! k * b ! k) [0..<n]"
    using assms by (intro nth_equalityI) simp_all
  then show ?thesis by (simp add: dotp_def)
qed

lemma has_shape_Mat_map:
  assumes "\<And>x. x \<in> set xs \<Longrightarrow> length (f x) = c"
  shows "has_shape (Mat c (map f xs)) (length xs) c"
  using assms by (simp add: has_shape_def wf_mat_def nrows_def list_all_iff)

lemma has_shape_pre1:
  assumes "wf_params p D H C"
  shows "has_shape (pre1 p X) (nrows X) H"
  using assms unfolding pre1_def wf_params_def
  by (auto simp: has_shape_def wf_mat_def nrows_def list_all_iff)

lemma has_shape_layer2:
  assumes "wf_params p D H C"
  shows "has_shape (layer2 p A) (nrows A) C"
  using assms unfolding layer2_def wf_params_def
  by (auto simp: has_shape_def wf_mat_def nrows_def list_all_iff)

lemma forward_steps:
  assumes X: "has_shape X N D" and p: "wf_params p D H C"
  shows "ebind (dot_mm X (transpose_m (W1 p))) (\<lambda>a. bc2 (+) a (row_mat (b1 p))) = Inr (pre1 p X)"
    and "has_shape A N H \<Longrightarrow>
         ebind (dot_mm A (transpose_m (W2 p))) (\<lambda>s. bc2 (+) s (row_mat (b2 p))) = Inr (layer2 p A)"
proof -
  have W1: "wf_mat (W1 p)" "ncols X = ncols (W1 p)" "nrows (W1 p) = H" "length (b1 p) = H"
    using X p by (simp_all add: has_shape_def wf_params_def)
  have s1: "has_shape (Mat H (map (\<lambda>x. map (dotp x) (rowsof (W1 p))) (rowsof X))) N H"
    using X W1 by (simp add: has_shape_def wf_mat_def nrows_def list_all_iff)
  show "ebind (dot_mm X (transpose_m (W1 p))) (\<lambda>a. bc2 (+) a (row_mat (b1 p))) = Inr (pre1 p X)"
    using W1 bc2_row_mat[OF s1 W1(4), of "(+)"]
    by (simp add: dot_mm_transpose pre1_def comp_def)
next
  assume A: "has_shape A N H"
  have W2: "wf_mat (W2 p)" "ncols A = ncols (W2 p)" "nrows (W2 p) = C" "length (b2 p) = C"
    using A p by (simp_all add: has_shape_def wf_params_def)
  have s1: "has_shape (Mat C (map (\<lambda>x. map (dotp x) (rowsof (W2 p))) (rowsof A))) N C"
    using A W2 by (simp add: has_shape_def wf_mat_def nrows_def list_all_iff)
  show "ebind (dot_mm A (transpose_m (W2 p))) (\<lambda>s. bc2 (+) s (row_mat (b2 p))) = Inr (layer2 p A)"
    using W2 bc2_row_mat[OF s1 W2(4), of "(+)"]
    by (simp add: dot_mm_transpose layer2_def comp_def)
qed

lemma ebind_assoc_Inr: "ebind m f = Inr v \<Longrightarrow> ebind m (\<lambda>x. ebind (f x) g) = g v"
  by (cases m) simp_all

lemma loss_forward_eq:
  assumes X: "has_shape X N D" and p: "wf_params p D H C"
  shows "loss_forward p X
         = Inr (map_m (max 0) (pre1 p X), layer2 p (map_m (max 0) (pre1 p X)))"
proof -
  have h1: "has_shape (pre1 p X) N H"
    using has_shape_pre1[OF p, of X] X by (simp add: has_shape_def)
  then have h2: "has_shape (map_m (max 0) (pre1 p X)) N H" by simp
  show ?thesis
    unfolding loss_forward_def
    by (simp add: ebind_assoc_Inr[OF forward_steps(1)[OF X p]]
        bc2_max_zeros[OF h1] ebind_assoc_Inr[OF forward_steps(2)[OF X p h2]])
qed

lemma predict_eq:
  assumes X: "has_shape X N D" and p: "wf_params p D H C"
  shows "TwoLayerNet_predict p X = argmax_axis1 (layer2 p (map_m (max 0) (pre1 p X)))"
proof -
  have h1: "has_shape (pre1 p X) N H"
    using has_shape_pre1[OF p, of X] X by (simp add: has_shape_def)
  then have h2: "has_shape (map_m (max 0) (pre1 p X)) N H" by simp
  show ?thesis
    unfolding TwoLayerNet_predict_def
    by (simp add: ebind_assoc_Inr[OF forward_steps(1)[OF X p]]
        bc2_max_zeros[OF h1] ebind_assoc_Inr[OF forward_steps(2)[OF X p h2]])
qed

lemma layer2_pre1_spec:
  assumes X: "has_shape X N D" and p: "wf_params p D H C"
  shows "layer2 p (map_m (max 0) (pre1 p X)) = scores_spec p X"
proof -
  have W1: "length (rowsof (W1 p)) = H" "length (b1 p) = H" "nrows (W1 p) = H"
    and W2: "length (rowsof (W2 p)) = C" "length (b2 p) = C" "nrows (W2 p) = C"
    and Xn: "length (rowsof X) = N" "nrows X = N" "ncols X = D"
    using X p by (simp_all add: has_shape_def wf_params_def nrows_def)
  have w1len: "\<And>h. h < H \<Longrightarrow> length (rowsof (W1 p) ! h) = D"
    using p W1 by (auto simp: wf_params_def has_shape_row)
  have w2len: "\<And>c. c < C \<Longrightarrow> length (rowsof (W2 p) ! c) = H"
    using p W2 by (auto simp: wf_params_def has_shape_row)
  have xlen: "\<And>i. i < N \<Longrightarrow> length (rowsof X ! i) = D"
    using X Xn by (auto simp: has_shape_row)
  define Hpre where "Hpre = (\<lambda>i h. (\<Sum>d\<leftarrow>[0..<D]. get_entry X i d * get_entry (W1 p) h d) + b1 p ! h)"
  define A where "A = (\<lambda>i. map (\<lambda>h. max 0 (Hpre i h)) [0..<H])"
  have rowA: "map (max 0) (map2 (+) (map (dotp (rowsof X ! i)) (rowsof (W1 p))) (b1 p)) = A i"
    if "i < N" for i
    using that W1
    by (intro nth_equalityI)
       (simp_all add: A_def Hpre_def dotp_nth[OF xlen w1len] get_entry_def)
  have rowS: "map2 (+) (map (dotp (A i)) (rowsof (W2 p))) (b2 p)
              = map (\<lambda>c. (\<Sum>h\<leftarrow>[0..<H]. max 0 (Hpre i h) * get_entry (W2 p) c h) + b2 p ! c) [0..<C]"
    for i
  proof (intro nth_equalityI)
    show "length (map2 (+) (map (dotp (A i)) (rowsof (W2 p))) (b2 p))
          = length (map (\<lambda>c. (\<Sum>h\<leftarrow>[0..<H]. max 0 (Hpre i h) * get_entry (W2 p) c h) + b2 p ! c) [0..<C])"
      using W2 by simp
  next
    fix c assume "c < length (map2 (+) (map (dotp (A i)) (rowsof (W2 p))) (b2 p))"
    then have c: "c < C" using W2 by simp
    have lenA: "length (A i) = H" by (simp add: A_def)
    have "dotp (A i) (rowsof (W2 p) ! c) = (\<Sum>h\<leftarrow>[0..<H]. A i ! h * rowsof (W2 p) ! c ! h)"
      using dotp_nth[OF lenA w2len[OF c]] .
    also have "\<dots> = (\<Sum>h\<leftarrow>[0..<H]. max 0 (Hpre i h) * get_entry (W2 p) c h)"
      by (rule arg_cong[where f = sum_list]) (simp add: A_def get_entry_def)
    finally show "map2 (+) (map (dotp (A i)) (rowsof (W2 p))) (b2 p) ! c
          = map (\<lambda>c. (\<Sum>h\<leftarrow>[0..<H]. max 0 (Hpre i h) * get_entry (W2 p) c h) + b2 p ! c) [0..<C] ! c"
      using c W2 by simp
  qed
  have "map (\<lambda>a. map2 (+) (map (dotp a) (rowsof (W2 p))) (b2 p))
          (map (map (max 0)) (map (\<lambda>x. map2 (+) (map (dotp x) (rowsof (W1 p))) (b1 p)) (rowsof X)))
        = map (\<lambda>i. map (\<lambda>c. (\<Sum>h\<leftarrow>[0..<H]. max 0 (Hpre i h) * get_entry (W2 p) c h) + b2 p ! c) [0..<C]) [0..<N]"
  proof (rule nth_equalityI)
    show "length (map (\<lambda>a. map2 (+) (map (dotp a) (rowsof (W2 p))) (b2 p))
          (map (map (max 0)) (map (\<lambda>x. map2 (+) (map (dotp x) (rowsof (W1 p))) (b1 p)) (rowsof X))))
        = length (map (\<lambda>i. map (\<lambda>c. (\<Sum>h\<leftarrow>[0..<H]. max 0 (Hpre i h) * get_entry (W2 p) c h) + b2 p ! c) [0..<C]) [0..<N])"
      using Xn by simp
  next
    fix i
    assume "i < length (map (\<lambda>a. map2 (+) (map (dotp a) (rowsof (W2 p))) (b2 p))
          (map (map (max 0)) (map (\<lambda>x. map2 (+) (map (dotp x) (rowsof (W1 p))) (b1 p)) (rowsof X))))"
    then have i: "i < N" using Xn by simp
    show "map (\<lambda>a. map2 (+) (map (dotp a) (rowsof (W2 p))) (b2 p))
          (map (map (max 0)) (map (\<lambda>x. map2 (+) (map (dotp x) (rowsof (W1 p))) (b1 p)) (rowsof X))) ! i
        = map (\<lambda>i. map (\<lambda>c. (\<Sum>h\<leftarrow>[0..<H]. max 0 (Hpre i h) * get_entry (W2 p) c h) + b2 p ! c) [0..<C]) [0..<N] ! i"
      using i Xn rowA[OF i] rowS[of i] by simp
  qed
  then show ?thesis
    using W1 W2 Xn
    by (simp add: layer2_def pre1_def map_m_def scores_spec_def Let_def Hpre_def)
qed

section \<open>The backward pass of the two-layer network\<close>

lemma ebind_assoc: "ebind (ebind m f) g = ebind m (\<lambda>x. ebind (f x) g)"
  by (cases m) simp_all

lemma emap_norm_index:
  assumes "\<forall>l\<in>set y. 0 \<le> l \<and> l < int c"
  shows "emap (norm_index c) y = Inr (map nat y)"
  using assms by (induction y) (simp_all add: norm_index_def)

lemma fancy_pairs_ok:
  assumes "nrows M = length y" and "ncols M = c" and "\<forall>l\<in>set y. 0 \<le> l \<and> l < int c"
  shows "fancy_pairs M y = Inr (zip [0..<length y] (map nat y))"
  using assms by (simp add: fancy_pairs_def emap_norm_index)

lemma has_shape_set_entry:
  assumes "has_shape M n c"
  shows "has_shape (set_entry M i j v) n c"
proof (cases "i < length (rowsof M)")
  case True
  then have "length ((rowsof M ! i)[j := v]) = c"
    using assms by (simp add: has_shape_row)
  with assms show ?thesis
    by (auto simp: has_shape_def wf_mat_def set_entry_def nrows_def list_all_iff
        dest!: set_update_subset_insert[THEN subsetD])
next
  case False
  then have "(rowsof M)[i := (rowsof M ! i)[j := v]] = rowsof M"
    by (simp add: list_update_beyond)
  then have "set_entry M i j v = M"
    by (simp add: set_entry_def)
  with assms show ?thesis by simp
qed

lemma has_shape_isub_at:
  assumes "has_shape M n c"
  shows "has_shape (isub_at M ps v) n c"
proof -
  have "has_shape A n c \<Longrightarrow> has_shape (fold (\<lambda>(i, j) A. set_entry A i j (get_entry M i j - v)) ps A) n c"
    for A
    by (induction ps arbitrary: A) (auto simp: has_shape_set_entry)
  with assms show ?thesis by (simp add: isub_at_def)
qed

lemma has_shape_Mat_map2:
  assumes "length xs = n" and "length ys = n"
    and "\<And>x y. x \<in> set xs \<Longrightarrow> y \<in> set ys \<Longrightarrow> length (f x y) = c"
  shows "has_shape (Mat c (map2 f xs ys)) n c"
proof -
  have "length (case p of (x, y) \<Rightarrow> f x y) = c" if "p \<in> set (zip xs ys)" for p
  proof -
    obtain x y where p: "p = (x, y)" by (cases p)
    with that have "x \<in> set xs" "y \<in> set ys"
      by (auto dest: set_zip_leftD set_zip_rightD)
    with assms(3) p show ?thesis by simp
  qed
  then show ?thesis
    using assms(1,2) by (simp add: has_shape_def wf_mat_def nrows_def list_all_iff)
qed

lemma bc2_col_mat:
  assumes "has_shape A n c" and "length v = n"
  shows "\<exists>R. bc2 f A (col_mat v) = Inr R \<and> has_shape R n c"
proof -
  have len: "length (rowsof A) = n" and nc: "ncols A = c"
    using assms by (simp_all add: has_shape_def nrows_def)
  let ?g = "\<lambda>a b. map2 f (stretch c a) (stretch c b)"
  have eq: "bc2 f A (col_mat v) = Inr (Mat c (map2 ?g (rowsof A) (map (\<lambda>x. [x]) v)))"
    using len nc assms(2) by (simp add: bc2_def col_mat_def nrows_def)
  have "length (?g a b) = c" if "a \<in> set (rowsof A)" and "b \<in> set (map (\<lambda>x. [x]) v)" for a b
  proof -
    from that(2) obtain x where b: "b = [x]" by auto
    have "length a = c" using assms(1) that(1) by (rule has_shape_row)
    then show ?thesis by (simp add: b stretch_single)
  qed
  then have "has_shape (Mat c (map2 ?g (rowsof A) (map (\<lambda>x. [x]) v))) n c"
    using len assms(2) by (intro has_shape_Mat_map2) simp_all
  with eq show ?thesis by blast
qed

lemma mask_assign_ok:
  assumes "has_shape G n c" and "has_shape M n c"
  shows "\<exists>R. mask_assign G M = Inr R \<and> has_shape R n c"
proof -
  have "has_shape (Mat c (map2 (map2 (\<lambda>gv hv. if hv \<le> 0 then 0 else gv)) (rowsof G) (rowsof M))) n c"
    using assms by (rule has_shape_map2_rows)
  then show ?thesis
    using assms by (simp add: mask_assign_def shape_def has_shape_def)
qed

lemma bc2_same_shape_ok:
  assumes "has_shape A n c" and "has_shape B n c"
  shows "\<exists>R. bc2 f A B = Inr R \<and> has_shape R n c"
  using bc2_same_shape[OF assms] has_shape_map2_rows[OF assms] by blast

lemma has_shape_transpose':
  "has_shape M n c \<Longrightarrow> has_shape (transpose_m M) c n"
  using has_shape_transpose[of M] by (simp add: has_shape_def)

lemma dot_mm_ok:
  assumes "has_shape A n k" and "has_shape B k c"
  shows "\<exists>R. dot_mm A B = Inr R \<and> has_shape R n c"
  using dot_mm_shape[of A B] assms by (auto simp: has_shape_def)

lemma length_sum_axis1: "length (sum_axis1 M) = nrows M"
  by (simp add: sum_axis1_def nrows_def)

lemma length_sum_axis0: "length (sum_axis0 M) = ncols M"
  by (simp add: sum_axis0_def sum_axis1_def transpose_m_def)

lemma loss_backward_ok:
  assumes X: "has_shape X N D" and p: "wf_params p D H C"
    and H1: "has_shape H1 N H" and S: "has_shape scores N C"
    and y: "length y = N" "\<forall>l\<in>set y. 0 \<le> l \<and> l < int C"
  shows "\<exists>grads. loss_backward p X y reg H1 scores
           = Inr (data_loss scores y
                  + 0.5 * reg * (sum_m (map_m (\<lambda>w. w * w) (W1 p)) + sum_m (map_m (\<lambda>w. w * w) (W2 p))),
                  grads)
         \<and> wf_params grads D H C"
proof -
  have Sn: "nrows scores = N" "ncols scores = C" using S by (simp_all add: has_shape_def)
  let ?ps = "zip [0..<length y] (map nat y)"
  have ps: "fancy_pairs scores y = Inr ?ps"
    using fancy_pairs_ok[of scores y C] Sn y by simp
  have d: "bc1 (-) (map ln (sum_axis1 (map_m exp scores))) (map (\<lambda>(i, j). get_entry scores i j) ?ps)
           = Inr (map2 (-) (map ln (sum_axis1 (map_m exp scores))) (map (\<lambda>(i, j). get_entry scores i j) ?ps))"
    using Sn y by (intro bc1_same) (simp add: sum_axis1_def map_m_def nrows_def)
  have eA: "has_shape (map_m exp scores) N C" using S by simp
  obtain sg where sg: "bc2 (/) (map_m exp scores) (col_mat (sum_axis1 (map_m exp scores))) = Inr sg"
    and sgs: "has_shape sg N C"
    using bc2_col_mat[OF eA, of "sum_axis1 (map_m exp scores)" "(/)"] Sn
    by (auto simp: sum_axis1_def map_m_def nrows_def)
  let ?sgrad = "map_m (\<lambda>v. v / real N) (isub_at sg ?ps 1)"
  have sgr: "has_shape ?sgrad N C"
    by (simp add: has_shape_isub_at sgs)
  obtain g1 where g1: "dot_mm (transpose_m H1) ?sgrad = Inr g1" and g1s: "has_shape g1 H C"
    using dot_mm_ok[OF has_shape_transpose'[OF H1] sgr] by blast
  have rW2: "has_shape (map_m (\<lambda>w. reg * w) (W2 p)) C H"
    and rW1: "has_shape (map_m (\<lambda>w. reg * w) (W1 p)) H D"
    and W2s: "has_shape (W2 p) C H"
    using p by (simp_all add: wf_params_def)
  obtain gW2 where gW2: "bc2 (+) (map_m (\<lambda>w. reg * w) (W2 p)) (transpose_m g1) = Inr gW2"
    and gW2s: "has_shape gW2 C H"
    using bc2_same_shape_ok[OF rW2 has_shape_transpose'[OF g1s]] by blast
  obtain g2 where g2: "dot_mm ?sgrad (W2 p) = Inr g2" and g2s: "has_shape g2 N H"
    using dot_mm_ok[OF sgr W2s] by blast
  obtain gr2 where gr2: "mask_assign g2 H1 = Inr gr2" and gr2s: "has_shape gr2 N H"
    using mask_assign_ok[OF g2s H1] by blast
  obtain t where t: "dot_mm (transpose_m X) gr2 = Inr t" and ts: "has_shape t D H"
    using dot_mm_ok[OF has_shape_transpose'[OF X] gr2s] by blast
  obtain gW1 where gW1: "bc2 (+) (map_m (\<lambda>w. reg * w) (W1 p)) (transpose_m t) = Inr gW1"
    and gW1s: "has_shape gW1 H D"
    using bc2_same_shape_ok[OF rW1 has_shape_transpose'[OF ts]] by blast
  have b2len: "length (sum_axis1 (transpose_m ?sgrad)) = C"
    using sgr by (simp add: length_sum_axis1 transpose_m_def nrows_def has_shape_def)
  have b1len: "length (sum_axis0 gr2) = H"
    using gr2s by (simp add: length_sum_axis0 has_shape_def)
  have "loss_backward p X y reg H1 scores
        = Inr (data_loss scores y
                + 0.5 * reg * (sum_m (map_m (\<lambda>w. w * w) (W1 p)) + sum_m (map_m (\<lambda>w. w * w) (W2 p))),
               \<lparr>W1 = gW1, b1 = sum_axis0 gr2, W2 = gW2, b2 = sum_axis1 (transpose_m ?sgrad)\<rparr>)"
    unfolding loss_backward_def Let_def data_loss_def
    by (simp only: ps d sg g1 gW2 g2 gr2 t gW1 ebind_Inr Sn)
  moreover have "wf_params \<lparr>W1 = gW1, b1 = sum_axis0 gr2, W2 = gW2, b2 = sum_axis1 (transpose_m ?sgrad)\<rparr> D H C"
    using gW1s gW2s b1len b2len by (simp add: wf_params_def)
  ultimately show ?thesis by blast
qed

section \<open>All-zero parameters\<close>

lemma dotp_zero_right: "dotp x (replicate n 0) = 0"
proof -
  have "sum_list (map2 (*) x (replicate n (0::real))) = 0"
  proof (induction x arbitrary: n)
    case Nil
    show ?case by simp
  next
    case (Cons a x)
    show ?case by (cases n) (simp_all add: Cons.IH)
  qed
  then show ?thesis by (simp add: dotp_def)
qed

lemma map_const_replicate: "map (\<lambda>x. k) xs = replicate (length xs) k"
  by (induction xs) simp_all

lemma wf_zero_params: "wf_params (zero_params D H C) D H C"
  by (simp add: wf_params_def zero_params_def has_shape_zeros)

lemma pre1_zero: "pre1 (zero_params D H C) X = zeros (nrows X) H"
  by (simp add: pre1_def zero_params_def zeros_def nrows_def dotp_zero_right
      map2_replicate_left map_const_replicate)

lemma layer2_zero: "layer2 (zero_params D H C) A = zeros (nrows A) C"
  by (simp add: layer2_def zero_params_def zeros_def nrows_def dotp_zero_right
      map2_replicate_left map_const_replicate)

lemma map_m_zeros: "f 0 = 0 \<Longrightarrow> map_m f (zeros n c) = zeros n c"
  by (simp add: map_m_def zeros_def)

lemma nrows_zeros [simp]: "nrows (zeros n c) = n"
  by (simp add: zeros_def nrows_def)

lemma loss_forward_zero:
  assumes "has_shape X N D"
  shows "loss_forward (zero_params D H C) X = Inr (zeros N H, zeros N C)"
  using loss_forward_eq[OF assms wf_zero_params, of H C] assms
  by (simp add: pre1_zero layer2_zero map_m_zeros has_shape_def)

lemma mean_const:
  assumes "\<forall>x\<in>set xs. x = c" and "xs \<noteq> []"
  shows "mean xs = c"
proof -
  have "xs = replicate (length xs) c"
    using assms(1) by (induction xs) simp_all
  then have "sum_list xs = real (length xs) * c"
    by (metis sum_list_replicate)
  with assms(2) show ?thesis by (simp add: mean_def)
qed

lemma data_loss_zeros:
  assumes "0 < N" and "length y = N" and "\<forall>l\<in>set y. 0 \<le> l \<and> l < int C"
  shows "data_loss (zeros N C) y = ln (real C)"
proof -
  let ?L = "map ln (sum_axis1 (map_m exp (zeros N C)))"
  let ?A = "map (\<lambda>(i, j). get_entry (zeros N C) i j) (zip [0..<length y] (map nat y))"
  have L: "?L = replicate N (ln (real C))"
    by (simp add: sum_axis1_def map_m_def zeros_def sum_list_replicate)
  have A: "?A ! k = 0" if "k < N" for k
  proof -
    have "nat (y ! k) < C" using assms(2,3) that by (simp add: nat_less_iff)
    then show ?thesis
      using that assms(2) by (simp add: get_entry_def zeros_def)
  qed
  have len: "length (map2 (-) ?L ?A) = N"
    using assms(2) by (simp add: L)
  have "\<forall>x\<in>set (map2 (-) ?L ?A). x = ln (real C)"
  proof
    fix x assume "x \<in> set (map2 (-) ?L ?A)"
    then obtain k where k: "k < length (map2 (-) ?L ?A)" and x: "x = map2 (-) ?L ?A ! k"
      by (metis in_set_conv_nth)
    from k have kN: "k < N" by (simp only: len)
    have "map2 (-) ?L ?A ! k = ?L ! k - ?A ! k"
      using kN assms(2) by (simp add: L)
    also have "\<dots> = ln (real C)"
      using kN A[OF kN] by (simp add: L)
    finally show "x = ln (real C)" using x by simp
  qed
  moreover have "map2 (-) ?L ?A \<noteq> []"
    using len assms(1) by auto
  ultimately show ?thesis
    unfolding data_loss_def by (rule mean_const)
qed

section \<open>Perturbing and restoring a weight\<close>

lemma set_entry_restore:
  "set_entry (set_entry (set_entry W i j a) i j b) i j (get_entry W i j) = W"
proof (cases "i < length (rowsof W)")
  case True
  then show ?thesis
    by (cases W) (simp add: set_entry_def get_entry_def)
next
  case False
  then have "length (rowsof W) \<le> i" by simp
  then show ?thesis
    by (cases W) (simp add: set_entry_def get_entry_def list_update_beyond)
qed

lemma grad_check_body_restores:
  assumes "grad_check_body X y g h r0 r1 W = (W', Inr line)"
  shows "W' = W"
  using assms
  by (auto simp: grad_check_body_def Let_def set_entry_restore split: sum.splits)

lemma grad_check_loop_restores:
  assumes "grad_check_loop X y g h rnd ks (W, out) = (W', Inr out')"
  shows "W' = W"
  using assms
proof (induction ks arbitrary: W out)
  case Nil
  then show ?case by simp
next
  case (Cons k ks)
  obtain W1 r where body: "grad_check_body X y g h (rnd (2 * k)) (rnd (2 * k + 1)) W = (W1, r)"
    by (cases "grad_check_body X y g h (rnd (2 * k)) (rnd (2 * k + 1)) W")
  show ?case
  proof (cases r)
    case (Inl e)
    with Cons.prems body show ?thesis by simp
  next
    case (Inr line)
    with Cons.prems body have "grad_check_loop X y g h rnd ks (W1, out @ [line]) = (W', Inr out')"
      by simp
    then have "W' = W1" by (rule Cons.IH)
    moreover have "W1 = W" using body Inr by (simp add: grad_check_body_restores)
    ultimately show ?thesis by simp
  qed
qed

lemma take_cols_ok:
  assumes "ncols M = c" and "\<forall>l\<in>set y. 0 \<le> l \<and> l < int c"
  shows "take_cols M y = Inr (Mat (length y) (map (\<lambda>r. map (\<lambda>j. r ! j) (map nat y)) (rowsof M)))"
  using assms by (simp add: take_cols_def emap_norm_index)

lemma Softmax_loss_ok:
  assumes W: "has_shape W C D" and X: "has_shape X N D"
    and y: "length y = N" "\<forall>l\<in>set y. 0 \<le> l \<and> l < int C"
  shows "\<exists>l. Softmax_loss W X y = Inr l"
proof -
  let ?pred = "Mat (nrows W) (map (\<lambda>x. map (dotp x) (rowsof W)) (rowsof X))"
  have Wn: "wf_mat W" "ncols X = ncols W" "nrows W = C" and Xn: "length (rowsof X) = N"
    using W X by (simp_all add: has_shape_def nrows_def)
  have pred: "dot_mm X (transpose_m W) = Inr ?pred"
    using Wn by (simp add: dot_mm_transpose)
  let ?A = "Mat (length y) (map (\<lambda>r. map (\<lambda>j. r ! j) (map nat y)) (rowsof ?pred))"
  have A: "take_cols ?pred y = Inr ?A"
    using take_cols_ok[of ?pred C y] Wn y by simp
  have "has_shape ?A (length (rowsof ?pred)) (length y)"
    by (rule has_shape_Mat_map) simp
  then have As: "has_shape (map_m uminus ?A) N N"
    using Xn y by simp
  let ?lse = "map ln (sum_axis1 (map_m exp ?pred))"
  have "length ?lse = N" using Xn by (simp add: sum_axis1_def map_m_def)
  from bc2_row_mat[OF As this, of "(+)"] show ?thesis
    unfolding Softmax_loss_def Let_def by (simp only: pred A ebind_Inr) blast
qed

lemma randint_ok: "0 < m \<Longrightarrow> randint m r = Inr (r mod m)"
  by (simp add: randint_def)

lemma grad_check_body_ok:
  assumes W: "has_shape W C D" and C: "0 < C" and D: "0 < D"
    and X: "has_shape X N D" and y: "length y = N" "\<forall>l\<in>set y. 0 \<le> l \<and> l < int C"
    and g: "has_shape G C D"
  shows "\<exists>line. grad_check_body X y (Arr2 G) h r0 r1 W = (W, Inr line)"
proof -
  let ?i = "r0 mod C" and ?j = "r1 mod D"
  have Wn: "nrows W = C" "ncols W = D" using W by (simp_all add: has_shape_def)
  have Gn: "nrows G = C" "ncols G = D" using g by (simp_all add: has_shape_def)
  let ?Wp = "set_entry W ?i ?j (get_entry W ?i ?j + h)"
  let ?Wm = "set_entry ?Wp ?i ?j (get_entry W ?i ?j - h)"
  obtain fxph where p: "Softmax_loss ?Wp X y = Inr fxph"
    using Softmax_loss_ok[OF has_shape_set_entry[OF W] X y] by blast
  obtain fxmh where m: "Softmax_loss ?Wm X y = Inr fxmh"
    using Softmax_loss_ok[OF has_shape_set_entry[OF has_shape_set_entry[OF W]] X y] by blast
  show ?thesis
    using C D by (simp add: grad_check_body_def Wn Gn randint_ok Let_def p m set_entry_restore)
qed

lemma grad_check_loop_ok:
  assumes W: "has_shape W C D" and C: "0 < C" and D: "0 < D"
    and X: "has_shape X N D" and y: "length y = N" "\<forall>l\<in>set y. 0 \<le> l \<and> l < int C"
    and g: "has_shape G C D"
  shows "\<exists>out'. grad_check_loop X y (Arr2 G) h rnd ks (W, out) = (W, Inr out')"
proof (induction ks arbitrary: out)
  case Nil
  show ?case by simp
next
  case (Cons k ks)
  obtain line where "grad_check_body X y (Arr2 G) h (rnd (2 * k)) (rnd (2 * k + 1)) W = (W, Inr line)"
    using grad_check_body_ok[OF assms] by blast
  then show ?case using Cons.IH[of "out @ [line]"] by simp
qed

lemma grad_check_sparse_returns:
  assumes W: "has_shape W C D" and C: "0 < C" and D: "0 < D"
    and X: "has_shape X N D" and y: "length y = N" "\<forall>l\<in>set y. 0 \<le> l \<and> l < int C"
    and g: "has_shape G C D"
  shows "\<exists>out. Softmax_grad_check_sparse W X y (Arr2 G) num_checks h rnd = (W, Inr out)"
  unfolding Softmax_grad_check_sparse_def using grad_check_loop_ok[OF assms] .

section \<open>One step and the loop of Softmax.train\<close>














text \<open>A negative batch size makes the first allocation of the first iteration raise.\<close>

lemma Softmax_train_step_negative:
  assumes "batch_size < 0"
  shows "Softmax_train_step capacity X y lr batch_size it W = Inl ValueError"
  using assms by (simp add: Softmax_train_step_def np_zeros_def)

section \<open>One step and the loop of TwoLayerNet.train\<close>

lemma argmax_axis1_ok:
  assumes "has_shape S n c" and "0 < c"
  shows "\<exists>l. argmax_axis1 S = Inr l \<and> length l = n"
  using assms by (simp add: argmax_axis1_def has_shape_def nrows_def)

lemma TwoLayerNet_predict_ok:
  assumes X: "has_shape X N D" and p: "wf_params p D H C" and C: "0 < C"
  shows "\<exists>l. TwoLayerNet_predict p X = Inr l \<and> length l = N"
proof -
  have "nrows (map_m (max 0) (pre1 p X)) = N"
    using X by (simp add: map_m_def pre1_def nrows_def has_shape_def)
  then have "has_shape (layer2 p (map_m (max 0) (pre1 p X))) N C"
    using has_shape_layer2[OF p, of "map_m (max 0) (pre1 p X)"] by simp
  from argmax_axis1_ok[OF this C] show ?thesis
    by (simp add: predict_eq[OF X p])
qed

lemma TwoLayerNet_loss_ok:
  assumes X: "has_shape X N D" and p: "wf_params p D H C"
    and y: "length y = N" "\<forall>l\<in>set y. 0 \<le> l \<and> l < int C"
  shows "\<exists>l grads. TwoLayerNet_loss p X (Some y) reg = Inr (LossGrads l grads)
                   \<and> wf_params grads D H C"
proof -
  let ?H1 = "map_m (max 0) (pre1 p X)"
  have n: "nrows X = N" using X by (simp add: has_shape_def)
  have H1: "has_shape ?H1 N H"
    using has_shape_pre1[OF p, of X] n by simp
  have "nrows ?H1 = N" using H1 by (simp add: has_shape_def)
  then have S: "has_shape (layer2 p ?H1) N C"
    using has_shape_layer2[OF p, of ?H1] by simp
  obtain grads where
    b: "loss_backward p X y reg ?H1 (layer2 p ?H1)
          = Inr (data_loss (layer2 p ?H1) y
                 + 0.5 * reg * (sum_m (map_m (\<lambda>w. w * w) (W1 p)) + sum_m (map_m (\<lambda>w. w * w) (W2 p))),
                 grads)"
    and g: "wf_params grads D H C"
    using loss_backward_ok[OF X p H1 S y, of reg] by blast
  show ?thesis
    using g by (simp add: TwoLayerNet_loss_def loss_forward_eq[OF X p] b)
qed

lemma isub_m_ok:
  assumes "has_shape P n c" and "has_shape G n c"
  shows "\<exists>R. isub_m P G = Inr R \<and> has_shape R n c"
proof -
  obtain R where R: "bc2 (-) P G = Inr R" and Rs: "has_shape R n c"
    using bc2_same_shape_ok[OF assms] by blast
  have "shape R = shape P"
    using Rs assms(1) by (simp add: shape_def has_shape_def)
  then show ?thesis using R Rs by (simp add: isub_m_def)
qed

lemma isub_v_ok:
  assumes "length p = n" and "length g = n"
  shows "\<exists>r. isub_v p g = Inr r \<and> length r = n"
  using assms by (simp add: isub_v_def bc1_same)

lemma sgd_update_ok:
  assumes p: "wf_params p D H C" and g: "wf_params g D H C"
  shows "\<exists>p'. sgd_update p lr g = Inr p' \<and> wf_params p' D H C"
proof -
  obtain w1 where w1: "isub_m (W1 p) (map_m (\<lambda>g. lr * g) (W1 g)) = Inr w1" and s1: "has_shape w1 H D"
    using isub_m_ok[of "W1 p" H D "map_m (\<lambda>g. lr * g) (W1 g)"] p g
    by (auto simp: wf_params_def)
  obtain c1 where c1: "isub_v (b1 p) (map (\<lambda>g. lr * g) (b1 g)) = Inr c1" and l1: "length c1 = H"
    using isub_v_ok[of "b1 p" H "map (\<lambda>g. lr * g) (b1 g)"] p g
    by (auto simp: wf_params_def)
  obtain w2 where w2: "isub_m (W2 p) (map_m (\<lambda>g. lr * g) (W2 g)) = Inr w2" and s2: "has_shape w2 C H"
    using isub_m_ok[of "W2 p" C H "map_m (\<lambda>g. lr * g) (W2 g)"] p g
    by (auto simp: wf_params_def)
  obtain c2 where c2: "isub_v (b2 p) (map (\<lambda>g. lr * g) (b2 g)) = Inr c2" and l2: "length c2 = C"
    using isub_v_ok[of "b2 p" C "map (\<lambda>g. lr * g) (b2 g)"] p g
    by (auto simp: wf_params_def)
  have "sgd_update p lr g = Inr \<lparr>W1 = w1, b1 = c1, W2 = w2, b2 = c2\<rparr>"
    unfolding sgd_update_def by (simp only: w1 c1 w2 c2 ebind_Inr)
  moreover have "wf_params \<lparr>W1 = w1, b1 = c1, W2 = w2, b2 = c2\<rparr> D H C"
    using s1 l1 s2 l2 by (simp add: wf_params_def)
  ultimately show ?thesis by blast
qed

lemma choice_ok:
  assumes "0 < n"
  shows "choice n k raw = Inr (map (\<lambda>j. raw j mod n) [0..<k])"
  using assms by (simp add: choice_def)

lemma emap_ok:
  assumes "\<forall>x\<in>set xs. f x = Inr (g x)"
  shows "emap f xs = Inr (map g xs)"
  using assms by (induction xs) simp_all

lemma accuracy_ok:
  assumes "length a = length b"
  shows "\<exists>v. accuracy a b = Inr v"
  using assms by (simp add: accuracy_def bc1_same)

lemma TwoLayerNet_train_step_ok:
  assumes inv: "wf_params (net st) D H C"
    and X: "has_shape X N D" and N: "0 < N"
    and y: "length y = N" "\<forall>l\<in>set y. 0 \<le> l \<and> l < int C"
    and Xv: "has_shape X_val Nv D" and yv: "length y_val = Nv"
  shows "\<exists>st'. TwoLayerNet_train_step X y X_val y_val decay reg batch_size ipe rnd it st = Inr st'
           \<and> wf_params (net st') D H C
           \<and> length (loss_history st') = Suc (length (loss_history st))
           \<and> length (train_acc_history st')
               = length (train_acc_history st) + (if np_mod (real it) ipe = 0 then 1 else 0)
           \<and> length (val_acc_history st')
               = length (val_acc_history st) + (if np_mod (real it) ipe = 0 then 1 else 0)"
proof -
  have Xn: "nrows X = N" "length (rowsof X) = N" "ncols X = D"
    using X by (simp_all add: has_shape_def nrows_def)
  obtain l0 where "l0 \<in> set y" using N y(1) by (cases y) auto
  with y(2) have C: "0 < C" by fastforce
  let ?idxs = "map (\<lambda>j. rnd it j mod N) [0..<batch_size]"
  have ch: "choice (nrows X) batch_size (rnd it) = Inr ?idxs"
    using N Xn by (simp add: choice_ok)
  have idx: "\<forall>i\<in>set ?idxs. i < N" using N by simp
  let ?Xb = "Mat (ncols X) (map (\<lambda>i. rowsof X ! i) ?idxs)"
  let ?yb = "map (\<lambda>i. y ! i) ?idxs"
  have "has_shape (Mat D (map (\<lambda>i. rowsof X ! i) ?idxs)) (length ?idxs) D"
  proof (rule has_shape_Mat_map)
    fix i assume "i \<in> set ?idxs"
    then have "i < N" using idx by blast
    then show "length (rowsof X ! i) = D"
      using X Xn by (simp add: has_shape_row)
  qed
  then have Xb: "has_shape ?Xb batch_size D" using Xn by simp
  have em: "emap (index1 y) ?idxs = Inr ?yb"
  proof (rule emap_ok)
    show "\<forall>i\<in>set ?idxs. index1 y i = Inr (y ! i)"
      using idx y(1) by (simp add: index1_def)
  qed
  have yb: "length ?yb = batch_size" by simp
  have ybl: "\<forall>l\<in>set ?yb. 0 \<le> l \<and> l < int C"
    using idx y by (auto simp: all_set_conv_all_nth)
  obtain loss grads where L: "TwoLayerNet_loss (net st) ?Xb (Some ?yb) reg = Inr (LossGrads loss grads)"
    and g: "wf_params grads D H C"
    using TwoLayerNet_loss_ok[OF Xb inv yb ybl, of reg] by blast
  obtain p' where u: "sgd_update (net st) (learning_rate st) grads = Inr p'"
    and p': "wf_params p' D H C"
    using sgd_update_ok[OF inv g] by blast
  let ?st1 = "st\<lparr>net := p', loss_history := loss_history st @ [loss]\<rparr>"
  show ?thesis
  proof (cases "np_mod (real it) ipe = 0")
    case False
    have "TwoLayerNet_train_step X y X_val y_val decay reg batch_size ipe rnd it st = Inr ?st1"
      unfolding TwoLayerNet_train_step_def Let_def
      by (simp only: ch em L u ebind_Inr loss_result.case False if_False)
    then show ?thesis using p' False by simp
  next
    case True
    obtain pb where pb: "TwoLayerNet_predict p' ?Xb = Inr pb" and pbl: "length pb = batch_size"
      using TwoLayerNet_predict_ok[OF Xb p' C] by blast
    obtain ta where ta: "accuracy pb ?yb = Inr ta"
      using accuracy_ok[of pb ?yb] pbl by auto
    obtain pv where pv: "TwoLayerNet_predict p' X_val = Inr pv" and pvl: "length pv = Nv"
      using TwoLayerNet_predict_ok[OF Xv p' C] by blast
    obtain va where va: "accuracy pv y_val = Inr va"
      using accuracy_ok[of pv y_val] pvl yv by auto
    have "TwoLayerNet_train_step X y X_val y_val decay reg batch_size ipe rnd it st
          = Inr (?st1\<lparr>train_acc_history := train_acc_history ?st1 @ [ta],
                       val_acc_history := val_acc_history ?st1 @ [va],
                       learning_rate := learning_rate ?st1 * decay\<rparr>)"
      unfolding TwoLayerNet_train_step_def Let_def
      by (simp only: ch em L u ebind_Inr loss_result.case True if_True pb ta pv va simp_thms)
    then show ?thesis using p' True by simp
  qed
qed

lemma TwoLayerNet_train_loop_ok:
  assumes X: "has_shape X N D" and N: "0 < N"
    and y: "length y = N" "\<forall>l\<in>set y. 0 \<le> l \<and> l < int C"
    and Xv: "has_shape X_val Nv D" and yv: "length y_val = Nv"
  shows "wf_params (net st) D H C \<Longrightarrow>
         \<exists>st'. TwoLayerNet_train_loop X y X_val y_val decay reg batch_size ipe rnd its st = Inr st'
           \<and> length (loss_history st') = length (loss_history st) + length its
           \<and> length (train_acc_history st') = length (train_acc_history st) + epoch_checks ipe its
           \<and> length (val_acc_history st') = length (val_acc_history st) + epoch_checks ipe its"
proof (induction its arbitrary: st)
  case Nil
  show ?case by (simp add: epoch_checks_def)
next
  case (Cons it its)
  obtain st1 where s: "TwoLayerNet_train_step X y X_val y_val decay reg batch_size ipe rnd it st = Inr st1"
    and inv1: "wf_params (net st1) D H C"
    and l1: "length (loss_history st1) = Suc (length (loss_history st))"
    and t1: "length (train_acc_history st1)
               = length (train_acc_history st) + (if np_mod (real it) ipe = 0 then 1 else 0)"
    and v1: "length (val_acc_history st1)
               = length (val_acc_history st) + (if np_mod (real it) ipe = 0 then 1 else 0)"
    using TwoLayerNet_train_step_ok[OF Cons.prems X N y Xv yv] by blast
  obtain st' where r: "TwoLayerNet_train_loop X y X_val y_val decay reg batch_size ipe rnd its st1 = Inr st'"
    and l: "length (loss_history st') = length (loss_history st1) + length its"
    and t: "length (train_acc_history st') = length (train_acc_history st1) + epoch_checks ipe its"
    and v: "length (val_acc_history st') = length (val_acc_history st1) + epoch_checks ipe its"
    using Cons.IH[OF inv1] by blast
  show ?case
    using r l t v l1 t1 v1 by (simp add: s epoch_checks_def)
qed

lemma TwoLayerNet_train_ok:
  assumes p: "wf_params p D H C" and X: "has_shape X N D" and N: "0 < N"
    and y: "length y = N" "\<forall>l\<in>set y. 0 \<le> l \<and> l < int C"
    and Xv: "has_shape X_val Nv D" and yv: "length y_val = Nv"
    and B: "0 < batch_size"
  shows "\<exists>st. TwoLayerNet_train p X y X_val y_val lr decay reg num_iters batch_size rnd = Inr st
           \<and> history_lengths st
              = (num_iters,
                 epoch_checks (max (f64_quotient N batch_size) 1) [0..<num_iters],
                 epoch_checks (max (f64_quotient N batch_size) 1) [0..<num_iters])"
proof -
  let ?st0 = "\<lparr>net = p, learning_rate = lr, loss_history = [],
               train_acc_history = [], val_acc_history = []\<rparr>"
  have n: "nrows X = N" using X by (simp add: has_shape_def)
  have inv: "wf_params (net ?st0) D H C" using p by simp
  from TwoLayerNet_train_loop_ok[OF X N y Xv yv inv,
      of decay reg batch_size "max (f64_quotient N batch_size) 1" rnd "[0..<num_iters]"]
  show ?thesis
    using B by (simp add: TwoLayerNet_train_def true_div_def n Let_def history_lengths_def)
qed


lemma returns_Inr: "returns (Inr v)"
  by (simp add: returns_def)

section \<open>The arg-max of a row and the scores of the forward pass\<close>

lemma argmax_aux_correct:
  assumes "bi < length pre" and "best = pre ! bi"
    and "\<forall>j<length pre. pre ! j \<le> best" and "\<forall>j<bi. pre ! j < best"
  shows "is_row_argmax (pre @ xs) (argmax_aux best bi (length pre) xs)"
  using assms
proof (induction xs arbitrary: pre best bi)
  case Nil
  then show ?case by (simp add: is_row_argmax_def list_all_iff)
next
  case (Cons x xs)
  show ?case
  proof (cases "best < x")
    case True
    have "is_row_argmax ((pre @ [x]) @ xs) (argmax_aux x (length pre) (length (pre @ [x])) xs)"
    proof (rule Cons.IH)
      show "length pre < length (pre @ [x])" by simp
      show "x = (pre @ [x]) ! length pre" by simp
      show "\<forall>j<length (pre @ [x]). (pre @ [x]) ! j \<le> x"
        using Cons.prems(3) True by (auto simp: nth_append less_Suc_eq)
      show "\<forall>j<length pre. (pre @ [x]) ! j < x"
        using Cons.prems(3) True by (auto simp: nth_append)
    qed
    with True show ?thesis by simp
  next
    case False
    have "is_row_argmax ((pre @ [x]) @ xs) (argmax_aux best bi (length (pre @ [x])) xs)"
    proof (rule Cons.IH)
      show "bi < length (pre @ [x])" using Cons.prems(1) by simp
      show "best = (pre @ [x]) ! bi" using Cons.prems(1,2) by (simp add: nth_append)
      show "\<forall>j<length (pre @ [x]). (pre @ [x]) ! j \<le> best"
        using Cons.prems(3) False by (auto simp: nth_append less_Suc_eq)
      show "\<forall>j<bi. (pre @ [x]) ! j < best"
        using Cons.prems(1,4) by (auto simp: nth_append)
    qed
    with False show ?thesis by simp
  qed
qed

lemma argmax_row_correct:
  assumes "r \<noteq> []"
  shows "is_row_argmax r (argmax_row r)"
proof -
  obtain x xs where r: "r = x # xs" using assms by (cases r) auto
  have "is_row_argmax ([x] @ xs) (argmax_aux x 0 (length [x]) xs)"
    by (rule argmax_aux_correct) simp_all
  then show ?thesis by (simp add: r argmax_row_def)
qed

lemma length_stretch: "length (stretch n xs) = n"
  by (simp add: stretch_def)

lemma bc2_wf:
  assumes "bc2 f A B = Inr R"
  shows "wf_mat R"
proof -
  obtain n c where n: "bc_len (nrows A) (nrows B) = Some n"
    and c: "bc_len (ncols A) (ncols B) = Some c"
    and R: "R = Mat c (map2 (\<lambda>a b. map2 f (stretch c a) (stretch c b))
                         (stretch n (rowsof A)) (stretch n (rowsof B)))"
    using assms by (auto simp: bc2_def split: option.splits)
  show ?thesis
    by (auto simp: R wf_mat_def list_all_iff length_stretch)
qed

lemma ebind_eq_Inr:
  assumes "ebind m f = Inr v"
  obtains x where "m = Inr x" and "f x = Inr v"
  using assms by (cases m) simp_all

lemma loss_forward_wf:
  assumes "loss_forward p X = Inr (H1, S)"
  shows "wf_mat S"
proof -
  from assms obtain a where "ebind (bc2 (+) a (row_mat (b1 p))) (\<lambda>H1.
     ebind (bc2 max (zeros (nrows H1) (ncols H1)) H1) (\<lambda>H1.
     ebind (dot_mm H1 (transpose_m (W2 p))) (\<lambda>s.
     ebind (bc2 (+) s (row_mat (b2 p))) (\<lambda>scores.
     Inr (H1, scores))))) = Inr (H1, S)"
    unfolding loss_forward_def by (rule ebind_eq_Inr)
  then obtain h where "ebind (bc2 max (zeros (nrows h) (ncols h)) h) (\<lambda>H1.
     ebind (dot_mm H1 (transpose_m (W2 p))) (\<lambda>s.
     ebind (bc2 (+) s (row_mat (b2 p))) (\<lambda>scores.
     Inr (H1, scores)))) = Inr (H1, S)"
    by (rule ebind_eq_Inr)
  then obtain h' where "ebind (dot_mm h' (transpose_m (W2 p))) (\<lambda>s.
     ebind (bc2 (+) s (row_mat (b2 p))) (\<lambda>scores.
     Inr (h', scores))) = Inr (H1, S)"
    by (rule ebind_eq_Inr)
  then obtain s where "ebind (bc2 (+) s (row_mat (b2 p))) (\<lambda>scores.
     Inr (h', scores)) = Inr (H1, S)"
    by (rule ebind_eq_Inr)
  then obtain sc where "bc2 (+) s (row_mat (b2 p)) = Inr sc"
    and "Inr (h', sc) = (Inr (H1, S) :: py_error + mat \<times> mat)"
    by (rule ebind_eq_Inr)
  then show ?thesis using bc2_wf[of "(+)" s "row_mat (b2 p)" sc] by simp
qed

lemma predict_via_forward:
  "TwoLayerNet_predict p X = ebind (loss_forward p X) (\<lambda>(H1, S). argmax_axis1 S)"
  by (simp add: TwoLayerNet_predict_def loss_forward_def ebind_assoc)

lemma loss_None_via_forward:
  "TwoLayerNet_loss p X None reg = ebind (loss_forward p X) (\<lambda>(H1, S). Inr (Scores S))"
  by (simp add: TwoLayerNet_loss_def)

section \<open>The softmax classifier: loss and gradients\<close>

lemmas np_eval =
  transpose_m_def nrows_def dot_mm_def dot_mv_def dotp_def upt_conv_Cons take_cols_def
  norm_index_def map_m_def sum_axis1_def bc2_def bc1_def bc_len_def row_mat_def stretch_def
  mean_m_def mean_def softmax_scores_def tile_def argmax_axis1_def argmax_row_def
  amax_axis1_def argmax_grad_def get_entry_def

text \<open>
  C1. The specification gives \<^verbatim>\<open>Softmax.loss(X, y)\<close> as the mean over the batch of
  \<open>- s\<^sub>i\<^sub>,\<^sub>y\<^sub>i + log (\<Sum>c. exp s\<^sub>i\<^sub>,\<^sub>c)\<close>. The code reads the correct-class scores with
  \<^verbatim>\<open>pred[:, y]\<close>, which is the \<open>N \<times> N\<close> matrix of all \<open>s\<^sub>i\<^sub>,\<^sub>y\<^sub>j\<close>, adds the row of
  log-sums by broadcasting and averages the \<open>N\<^sup>2\<close> entries. On the two examples
  \<open>x\<^sub>0 = (1)\<close>, \<open>x\<^sub>1 = (0)\<close> with labels \<open>0\<close>, \<open>1\<close> and weights \<open>W = ((1), (0))\<close> the code
  returns the specified loss plus \<open>1/4\<close>.
\<close>

theorem Softmax_loss_not_spec:
  "Softmax_loss (Mat 1 [[1], [0]]) (Mat 1 [[1], [0]]) [0, 1]
     = Inr (Softmax_loss_spec (Mat 1 [[1], [0]]) (Mat 1 [[1], [0]]) [0, 1] + 1 / 4)
   \<and> Softmax_loss_spec (Mat 1 [[1], [0]]) (Mat 1 [[1], [0]]) [0, 1]
     = (ln (exp 1 + 1) + ln 2) / 2 - 1 / 2"
  by (simp add: Softmax_loss_def Softmax_loss_spec_def np_eval field_simps)

text \<open>
  C2. The specification gives the gradient of \<^verbatim>\<open>Softmax.loss_and_grad\<close> as the
  \<open>(C, D)\<close> matrix \<open>(X\<^sup>T \<cdot> (P - Y) / N)\<^sup>T\<close>, and the docstring as a matrix of the
  dimensions of \<open>W\<close>. The code computes \<^verbatim>\<open>np.dot(X.T, (y_hat - y)) / y.shape[0]\<close>
  with \<open>y_hat\<close> the arg-max labels: a vector of length \<open>D\<close>. For one example \<open>x = (1)\<close>
  with label \<open>0\<close> and the zero weights of shape \<open>(2, 1)\<close> the code returns the vector
  \<open>[0]\<close>, of shape \<open>(1,)\<close>, where the specified gradient is the matrix
  \<open>((-1/2), (1/2))\<close>.
\<close>

theorem Softmax_loss_and_grad_not_spec:
  "Softmax_loss_and_grad (Mat 1 [[0], [0]]) (Mat 1 [[1]]) [0] = Inr (ln 2, [0])
   \<and> shape_nd (Arr1 [0]) = [1]
   \<and> shape_nd (Arr2 (Mat 1 [[0], [0]])) = [2, 1]
   \<and> Softmax_grad_spec (Mat 1 [[0], [0]]) (Mat 1 [[1]]) [0] = Mat 1 [[- 1 / 2], [1 / 2]]"
  unfolding Softmax_grad_spec_def Let_def
  by (simp add: Softmax_loss_and_grad_def softmax_prob_def np_eval)

text \<open>
  C3. \<^verbatim>\<open>fast_loss_and_grad\<close> is documented as a vectorized implementation of
  \<^verbatim>\<open>loss_and_grad\<close> with the same outputs. The two compute different losses: the
  mean of \<^verbatim>\<open>np.log(denominator) - y\<close> against the mean of
  \<^verbatim>\<open>-1 * np.log(np.amax(score, axis=1)) * y\<close>. For one example \<open>x = (1)\<close> with
  label \<open>1\<close> and zero weights of shape \<open>(2, 1)\<close> they return the losses \<open>ln 2 - 1\<close> and
  \<open>ln 2\<close>; for three examples and two classes \<^verbatim>\<open>loss_and_grad\<close> raises (the
  \<open>(3, 2)\<close> matrix and the 3 labels do not broadcast) where \<^verbatim>\<open>fast_loss_and_grad\<close>
  returns.
\<close>

theorem Softmax_fast_loss_and_grad_differs:
  "Softmax_loss_and_grad (Mat 1 [[0], [0]]) (Mat 1 [[1]]) [1] = Inr (ln 2 - 1, [- 1])
   \<and> Softmax_fast_loss_and_grad (Mat 1 [[0], [0]]) (Mat 1 [[1]]) [1] = Inr (ln 2, [- 1])
   \<and> Softmax_loss_and_grad (Mat 1 [[0], [0]]) (Mat 1 [[1], [2], [3]]) [0, 1, 0]
       = Inl ValueError
   \<and> Softmax_fast_loss_and_grad (Mat 1 [[0], [0]]) (Mat 1 [[1], [2], [3]]) [0, 1, 0]
       = Inr (ln 2 / 3, [- 2 / 3])"
  by (simp add: Softmax_loss_and_grad_def Softmax_fast_loss_and_grad_def np_eval ln_div)

section \<open>Softmax.predict\<close>

lemma softmax_function_raises: "softmax_function var = Inl NameError"
  by (simp add: softmax_function_def read_name_def softmax_function_scope_def)

text \<open>
  C7. \<^verbatim>\<open>Softmax.predict\<close> is documented to return the vector of the \<open>N\<close> predicted
  labels. As written it returns for no input at all: either \<^verbatim>\<open>np.dot(self.W, X)\<close>
  raises ValueError (the shapes \<open>(C, D)\<close> and \<open>(N, D)\<close> do not align unless \<open>D = N\<close>), or
  the read of the unbound name \<^verbatim>\<open>a\<close> raises NameError.
\<close>

theorem Softmax_predict_never_returns:
  "Softmax_predict W X = Inl ValueError \<or> Softmax_predict W X = Inl NameError"
  by (simp add: Softmax_predict_def dot_mm_def softmax_function_raises)

section \<open>Softmax.grad_check_sparse\<close>

text \<open>
  C9. When \<^verbatim>\<open>grad_check_sparse\<close> returns, the weight matrix is entry by entry what
  it was before the call: each perturbed entry has been set back to its old value. (The
  weights are the only state of the object. When a call of \<^verbatim>\<open>loss\<close> raises inside
  the loop, the method does not return and the entry stays perturbed.)
\<close>

theorem grad_check_sparse_restores_W:
  assumes "Softmax_grad_check_sparse W X y your_grad num_checks h rnd = (W', Inr out)"
  shows "W' = W"
  using assms unfolding Softmax_grad_check_sparse_def by (rule grad_check_loop_restores)

theorem grad_check_sparse_restores_W_witness:
  "fst (Softmax_grad_check_sparse (Mat 1 [[1], [0]]) (Mat 1 [[1], [0]]) [0, 1]
          (Arr2 (Mat 1 [[0], [0]])) 2 (1 / 100000) counting_draws) = Mat 1 [[1], [0]]
   \<and> returns (snd (Softmax_grad_check_sparse (Mat 1 [[1], [0]]) (Mat 1 [[1], [0]]) [0, 1]
          (Arr2 (Mat 1 [[0], [0]])) 2 (1 / 100000) counting_draws))"
proof -
  let ?r = "Softmax_grad_check_sparse (Mat 1 [[1], [0]]) (Mat 1 [[1], [0]]) [0, 1]
          (Arr2 (Mat 1 [[0], [0]])) 2 (1 / 100000) counting_draws"
  have "\<exists>out. ?r = (Mat 1 [[1], [0]], Inr out)"
    by (rule grad_check_sparse_returns[where C = 2 and D = 1 and N = 2])
       (simp_all add: has_shape_def wf_mat_def nrows_def)
  then obtain out where r: "?r = (Mat 1 [[1], [0]], Inr out)" by blast
  have "snd ?r = Inr out" unfolding r by (rule snd_conv)
  moreover have "?r = (fst ?r, Inr out)" unfolding r by (simp only: fst_conv)
  then have "fst ?r = Mat 1 [[1], [0]]" by (rule grad_check_sparse_restores_W)
  ultimately show ?thesis by (simp only: returns_def sum.disc simp_thms)
qed

section \<open>The two-layer network: forward pass and loss\<close>

text \<open>
  C4. With \<open>y\<close> omitted, \<^verbatim>\<open>TwoLayerNet.loss\<close> returns the score matrix alone, of
  shape \<open>(N, C)\<close>, with the entries \<open>S = A \<cdot> W2\<^sup>T + b2\<close>, \<open>A = max(0, H)\<close>,
  \<open>H = X \<cdot> W1\<^sup>T + b1\<close>, for every input of shape \<open>(N, D)\<close> and parameters of the shapes
  \<open>(H, D)\<close>, \<open>(H)\<close>, \<open>(C, H)\<close>, \<open>(C)\<close>.
\<close>

theorem TwoLayerNet_loss_scores:
  assumes "has_shape X N D"
    and "has_shape (W1 p) H D" and "length (b1 p) = H"
    and "has_shape (W2 p) C H" and "length (b2 p) = C"
  shows "TwoLayerNet_loss p X None reg = Inr (Scores (scores_spec p X))
         \<and> has_shape (scores_spec p X) N C"
proof -
  have p: "wf_params p D H C"
    using assms(2-5) by (simp add: wf_params_def)
  have eq: "layer2 p (map_m (max 0) (pre1 p X)) = scores_spec p X"
    using assms(1) p by (rule layer2_pre1_spec)
  have "has_shape (layer2 p (map_m (max 0) (pre1 p X))) (nrows (map_m (max 0) (pre1 p X))) C"
    using p by (rule has_shape_layer2)
  moreover have "nrows (map_m (max 0) (pre1 p X)) = N"
    using assms(1) by (simp add: map_m_def pre1_def nrows_def has_shape_def)
  ultimately have "has_shape (scores_spec p X) N C"
    by (simp add: eq)
  then show ?thesis
    by (simp add: TwoLayerNet_loss_def loss_forward_eq[OF assms(1) p] eq)
qed

theorem TwoLayerNet_loss_scores_witness:
  "TwoLayerNet_loss \<lparr>W1 = Mat 2 [[1, 0], [0, - 1]], b1 = [0, 1], W2 = Mat 2 [[1, 1]], b2 = [1 / 2]\<rparr>
     (Mat 2 [[1, 2]]) None 0 = Inr (Scores (Mat 1 [[3 / 2]]))
   \<and> has_shape (Mat 1 [[3 / 2]]) 1 1"
proof -
  let ?p = "\<lparr>W1 = Mat 2 [[1, 0], [0, - 1]], b1 = [0, 1], W2 = Mat 2 [[1, 1]], b2 = [1 / 2]\<rparr>"
  let ?X = "Mat 2 [[1, 2]]"
  have h: "has_shape ?X 1 2" "has_shape (W1 ?p) 2 2" "length (b1 ?p) = 2"
    "has_shape (W2 ?p) 1 2" "length (b2 ?p) = 1"
    by (simp_all add: has_shape_def wf_mat_def nrows_def)
  have s: "scores_spec ?p ?X = Mat 1 [[3 / 2]]"
    unfolding scores_spec_def Let_def by (simp add: get_entry_def nrows_def upt_conv_Cons)
  from TwoLayerNet_loss_scores[OF h, of 0] show ?thesis
    by (simp only: s)
qed

text \<open>
  C10. \<^verbatim>\<open>TwoLayerNet.predict(X)\<close> is the row-wise arg-max of the score matrix that
  \<^verbatim>\<open>TwoLayerNet.loss(X)\<close> returns with \<open>y\<close> omitted, for every input and every
  parameter set: when \<^verbatim>\<open>loss\<close> raises, \<^verbatim>\<open>predict\<close> raises the same error; when
  \<^verbatim>\<open>loss\<close> returns the scores \<open>S\<close>, \<^verbatim>\<open>predict\<close> returns one label for each row of
  \<open>S\<close>, and that label is a class index of the row holding its largest score (the first
  such index); it raises only when \<open>S\<close> has no column to choose from.
\<close>

theorem TwoLayerNet_predict_is_argmax_of_loss:
  "(case TwoLayerNet_loss p X None reg of
      Inl e \<Rightarrow> TwoLayerNet_predict p X = Inl e
    | Inr (LossGrads l g) \<Rightarrow> False
    | Inr (Scores S) \<Rightarrow>
        if ncols S = 0 then TwoLayerNet_predict p X = Inl ValueError
        else \<exists>labels. TwoLayerNet_predict p X = Inr labels
               \<and> length labels = nrows S
               \<and> list_all (\<lambda>i. 0 \<le> labels ! i
                                 \<and> is_row_argmax (rowsof S ! i) (nat (labels ! i)))
                    [0..<nrows S])"
proof (cases "loss_forward p X")
  case (Inl e)
  then show ?thesis by (simp add: predict_via_forward loss_None_via_forward)
next
  case (Inr hs)
  obtain H1 S where hs: "hs = (H1, S)" by (cases hs)
  have wf: "wf_mat S" using Inr hs loss_forward_wf by blast
  show ?thesis
  proof (cases "ncols S = 0")
    case True
    then show ?thesis
      using Inr hs by (simp add: predict_via_forward loss_None_via_forward argmax_axis1_def)
  next
    case False
    have "is_row_argmax (rowsof S ! i) (argmax_row (rowsof S ! i))" if "i < nrows S" for i
    proof -
      have "rowsof S ! i \<in> set (rowsof S)" using that by (simp add: nrows_def)
      then have "length (rowsof S ! i) = ncols S" using wf by (rule wf_mat_row[rotated])
      then have "rowsof S ! i \<noteq> []" using False by auto
      then show ?thesis by (rule argmax_row_correct)
    qed
    then show ?thesis
      using Inr hs False
      by (simp add: predict_via_forward loss_None_via_forward argmax_axis1_def nrows_def
          list_all_iff)
  qed
qed

theorem TwoLayerNet_predict_is_argmax_of_loss_witness:
  "TwoLayerNet_loss
     \<lparr>W1 = Mat 2 [[1, 0], [0, - 1]], b1 = [0, 1], W2 = Mat 2 [[1, 1], [2, 0]], b2 = [1 / 2, 0]\<rparr>
     (Mat 2 [[1, 2], [0, 0]]) None 0 = Inr (Scores (Mat 2 [[3 / 2, 2], [3 / 2, 0]]))
   \<and> TwoLayerNet_predict
     \<lparr>W1 = Mat 2 [[1, 0], [0, - 1]], b1 = [0, 1], W2 = Mat 2 [[1, 1], [2, 0]], b2 = [1 / 2, 0]\<rparr>
     (Mat 2 [[1, 2], [0, 0]]) = Inr [1, 0]"
proof -
  let ?p = "\<lparr>W1 = Mat 2 [[1, 0], [0, - 1]], b1 = [0, 1], W2 = Mat 2 [[1, 1], [2, 0]],
             b2 = [1 / 2, 0]\<rparr>"
  let ?X = "Mat 2 [[1, 2], [0, 0]]"
  have L: "TwoLayerNet_loss ?p ?X None 0 = Inr (Scores (Mat 2 [[3 / 2, 2], [3 / 2, 0]]))"
    by (simp add: TwoLayerNet_loss_def loss_forward_def np_eval zeros_def)
  from TwoLayerNet_predict_is_argmax_of_loss[of ?p ?X 0]
  obtain labels where P: "TwoLayerNet_predict ?p ?X = Inr labels"
    and len: "length labels = 2"
    and a0: "0 \<le> labels ! 0" "is_row_argmax [3 / 2, 2] (nat (labels ! 0))"
    and a1: "0 \<le> labels ! 1" "is_row_argmax [3 / 2, 0] (nat (labels ! 1))"
    unfolding L by (auto simp: nrows_def upt_conv_Cons)
  have "nat (labels ! 0) = 1"
    using a0(2) by (cases "nat (labels ! 0)") (auto simp: is_row_argmax_def upt_conv_Cons)
  moreover have "nat (labels ! 1) = 0"
    using a1(2) by (cases "nat (labels ! 1)") (auto simp: is_row_argmax_def upt_conv_Cons)
  ultimately have "labels ! 0 = 1" "labels ! 1 = 0"
    using a0(1) a1(1) by simp_all
  then have "labels = [1, 0]"
    using len by (intro nth_equalityI) (auto simp: less_Suc_eq numeral_2_eq_2)
  with L P show ?thesis by simp
qed

text \<open>
  C5. For a non-empty input of shape \<open>(N, D)\<close>, labels in \<open>[0, C)\<close>, \<open>reg = 0\<close> and
  all-zero parameters, the loss \<^verbatim>\<open>TwoLayerNet.loss(X, y, reg=0)\<close> returns is \<open>ln C\<close>.
\<close>

theorem TwoLayerNet_loss_zero_params:
  assumes X: "has_shape X N D" and N: "0 < N"
    and y: "length y = N" "\<forall>l\<in>set y. 0 \<le> l \<and> l < int C"
  shows "map_sum id the_loss (TwoLayerNet_loss (zero_params D H C) X (Some y) 0)
           = Inr (Some (ln (real C)))"
proof -
  obtain grads where
    "loss_backward (zero_params D H C) X y 0 (zeros N H) (zeros N C)
       = Inr (data_loss (zeros N C) y
              + 0.5 * 0 * (sum_m (map_m (\<lambda>w. w * w) (W1 (zero_params D H C)))
                           + sum_m (map_m (\<lambda>w. w * w) (W2 (zero_params D H C)))),
              grads)"
    using loss_backward_ok[OF X wf_zero_params has_shape_zeros has_shape_zeros y, of H 0]
    by blast
  then show ?thesis
    by (simp add: TwoLayerNet_loss_def loss_forward_zero[OF X] data_loss_zeros[OF N y])
qed

theorem TwoLayerNet_loss_zero_params_witness:
  "map_sum id the_loss
     (TwoLayerNet_loss (zero_params 2 2 3) (Mat 2 [[1, 2], [3, 4]]) (Some [0, 2]) 0)
   = Inr (Some (ln 3))"
  using TwoLayerNet_loss_zero_params [of "Mat 2 [[1, 2], [3, 4]]" 2 2 "[0, 2]" 3 2]
  by (simp add: has_shape_def wf_mat_def nrows_def)

section \<open>The training loops\<close>

text \<open>
  C6. The specification gives the length of the loss history as \<open>num_iters\<close> and the
  length of each accuracy history of the two-layer trainer as
  \<open>\<lceil>num_iters / iterations_per_epoch\<rceil>\<close>, and the code's comment says the accuracies are
  checked every epoch. The check is \<^verbatim>\<open>it % iterations_per_epoch == 0\<close> with
  \<^verbatim>\<open>iterations_per_epoch = max(num_train / batch_size, 1)\<close> a fraction under true
  division, so only the iterations that are whole multiples of it are recorded. With 5
  training rows, batches of 2 and 3 iterations one epoch is 2.5 iterations: the loss
  history has 3 entries, and each accuracy history has 1 entry (iteration 0) where the
  specification gives 2.
\<close>

theorem TwoLayerNet_train_history_lengths:
  "map_sum id history_lengths
     (TwoLayerNet_train (zero_params 1 1 1) (Mat 1 [[0], [0], [0], [0], [0]]) [0, 0, 0, 0, 0]
        (Mat 1 [[0]]) [0] (1 / 1000) (95 / 100) 0 3 2 zero_draws) = Inr (3, 1, 1)
   \<and> epochs_spec 3 5 2 = 2"
proof -
  have q: "f64_quotient 5 2 = 5 / 2"
    by (simp add: f64_quotient_def ilog2.simps pow2_def round_half_even_def Let_def)
  have ec: "epoch_checks (max (f64_quotient 5 2) 1) [0..<3] = 1"
    by (simp add: q epoch_checks_def np_mod_def upt_conv_Cons)
  have es: "epochs_spec 3 5 2 = 2"
    by (simp add: epochs_spec_def)
  have "\<exists>st. TwoLayerNet_train (zero_params 1 1 1) (Mat 1 [[0], [0], [0], [0], [0]]) [0, 0, 0, 0, 0]
        (Mat 1 [[0]]) [0] (1 / 1000) (95 / 100) 0 3 2 zero_draws = Inr st
      \<and> history_lengths st = (3, epoch_checks (max (f64_quotient 5 2) 1) [0..<3],
                                 epoch_checks (max (f64_quotient 5 2) 1) [0..<3])"
    by (rule TwoLayerNet_train_ok[where D = 1 and H = 1 and C = 1 and Nv = 1])
       (simp_all add: wf_zero_params has_shape_def wf_mat_def nrows_def)
  then obtain st where
    "TwoLayerNet_train (zero_params 1 1 1) (Mat 1 [[0], [0], [0], [0], [0]]) [0, 0, 0, 0, 0]
        (Mat 1 [[0]]) [0] (1 / 1000) (95 / 100) 0 3 2 zero_draws = Inr st"
    and "history_lengths st = (3, 1, 1)"
    by (auto simp only: ec)
  then show ?thesis by (simp only: es map_sum.simps id_apply simp_thms)
qed




end
